theory Spec2Isabelle
  imports Complex_Main "HOL-Library.Word" "HOL-Library.Sublist"
begin

section \<open>Carotid segmentation service: the U-Net and its request pipeline\<close>

text \<open>
  This theory embeds \<^verbatim>\<open>src/api/main.py\<close>: the U-Net module classes, the preprocessing
  pipeline, the mask prediction and the three prediction endpoints.

  Conventions of the embedding.
  \<^item> A tensor is its shape together with the value at every index. Values of float
    tensors are real numbers: rounding of 32-bit floats is not modelled.
  \<^item> The trained weights are read from a parameter file that is not part of the
    program text. They enter as the \<open>state_dict\<close>: for every learned layer, the
    function of its input that the layer computes with its loaded parameters (in
    evaluation mode, which the program selects once, directly after loading).
  \<^item> A Python exception is a value: every function that can raise returns
    \<open>py_exception + 'a\<close>, with \<open>Inl\<close> for the exception.
\<close>

subsection \<open>Exceptions\<close>

datatype py_exception =
    RuntimeError string
  | ValueError string
  | IndexError string
  | AttributeError string
  | UnidentifiedImageError string

fun str_of :: "py_exception \<Rightarrow> string" where
  "str_of (RuntimeError m) = m"
| "str_of (ValueError m) = m"
| "str_of (IndexError m) = m"
| "str_of (AttributeError m) = m"
| "str_of (UnidentifiedImageError m) = m"

definition and_then :: "'e + 'a \<Rightarrow> ('a \<Rightarrow> 'e + 'b) \<Rightarrow> 'e + 'b" where
  "and_then r f = (case r of Inl e \<Rightarrow> Inl e | Inr v \<Rightarrow> f v)"

subsection \<open>Tensors\<close>

record 'a tensor =
  shape :: "nat list"
  elem :: "nat list \<Rightarrow> 'a"

definition tensor_map :: "('a \<Rightarrow> 'b) \<Rightarrow> 'a tensor \<Rightarrow> 'b tensor" where
  "tensor_map f t = \<lparr>shape = shape t, elem = (\<lambda>idx. f (elem t idx))\<rparr>"

text \<open>
  \<^verbatim>\<open>torch.nn.functional.pad(x, [left, right, top, bottom])\<close> in its default constant
  mode with value 0, on a 4-D tensor: the last axis grows by \<open>left + right\<close>, the one
  before by \<open>top + bottom\<close>; a negative amount removes entries from that side. A
  resulting negative size raises.
\<close>

definition F_pad :: "'a::zero tensor \<Rightarrow> int \<Rightarrow> int \<Rightarrow> int \<Rightarrow> int \<Rightarrow> py_exception + 'a tensor" where
  "F_pad x pl pr pt pb =
     (case shape x of
        [n, c, h, w] \<Rightarrow>
          if int h + pt + pb < 0 \<or> int w + pl + pr < 0
          then Inl (RuntimeError ''negative output size'')
          else Inr \<lparr>shape = [n, c, nat (int h + pt + pb), nat (int w + pl + pr)],
                    elem = (\<lambda>idx. case idx of
                       [i, j, y, xx] \<Rightarrow>
                         (let y' = int y - pt; x' = int xx - pl
                          in if 0 \<le> y' \<and> y' < int h \<and> 0 \<le> x' \<and> x' < int w
                             then elem x [i, j, nat y', nat x'] else 0)
                     | _ \<Rightarrow> 0)\<rparr>
      | _ \<Rightarrow> Inl (RuntimeError ''pad: expected a 4-D tensor''))"

text \<open>
  \<^verbatim>\<open>torch.cat([a, b], dim=1)\<close> on 4-D tensors: all sizes but the channel size must
  agree; the channels of \<open>a\<close> come first.
\<close>

definition torch_cat :: "'a tensor \<Rightarrow> 'a tensor \<Rightarrow> py_exception + 'a tensor" where
  "torch_cat a b =
     (case (shape a, shape b) of
        ([n, ca, h, w], [n', cb, h', w']) \<Rightarrow>
          if n = n' \<and> h = h' \<and> w = w'
          then Inr \<lparr>shape = [n, ca + cb, h, w],
                    elem = (\<lambda>idx. case idx of
                       [i, j, y, xx] \<Rightarrow>
                         if j < ca then elem a [i, j, y, xx] else elem b [i, j - ca, y, xx]
                     | _ \<Rightarrow> elem a idx)\<rparr>
          else Inl (RuntimeError ''Sizes of tensors must match except in dimension 1'')
      | _ \<Rightarrow> Inl (RuntimeError ''cat: expected 4-D tensors''))"

subsection \<open>Layers of \<^verbatim>\<open>torch.nn\<close>\<close>

text \<open>
  The layers act on batched tensors of shape \<open>[N, C, H, W]\<close>, the only kind the program
  builds. A convolution also takes an unbatched \<open>[C, H, W]\<close> input, as torch does, and
  batch normalisation then rejects its result; for the other layers any rank but 4
  raises. Each learned layer carries the function that its loaded parameters compute; the
  shape of its result follows the layer's configuration.
\<close>

record 'a Conv2d =
  in_channels :: nat
  out_channels :: nat
  kernel_size :: nat
  padding :: nat
  conv_fn :: "'a tensor \<Rightarrow> nat list \<Rightarrow> 'a"

definition Conv2d_forward :: "'a Conv2d \<Rightarrow> 'a tensor \<Rightarrow> py_exception + 'a tensor" where
  "Conv2d_forward m x =
     (case shape x of
        [n, c, h, w] \<Rightarrow>
          if c \<noteq> in_channels m then Inl (RuntimeError ''conv2d: channel mismatch'')
          else if h + 2 * padding m < kernel_size m \<or> w + 2 * padding m < kernel_size m
          then Inl (RuntimeError ''Kernel size can't be greater than actual input size'')
          else Inr \<lparr>shape = [n, out_channels m,
                             h + 2 * padding m - kernel_size m + 1,
                             w + 2 * padding m - kernel_size m + 1],
                    elem = conv_fn m x\<rparr>
      | [c, h, w] \<Rightarrow>
          if c \<noteq> in_channels m then Inl (RuntimeError ''conv2d: channel mismatch'')
          else if h + 2 * padding m < kernel_size m \<or> w + 2 * padding m < kernel_size m
          then Inl (RuntimeError ''Kernel size can't be greater than actual input size'')
          else Inr \<lparr>shape = [out_channels m,
                             h + 2 * padding m - kernel_size m + 1,
                             w + 2 * padding m - kernel_size m + 1],
                    elem = conv_fn m x\<rparr>
      | _ \<Rightarrow> Inl (RuntimeError ''conv2d: expected a 3-D or 4-D input''))"

record 'a BatchNorm2d =
  num_features :: nat
  bn_fn :: "nat \<Rightarrow> 'a \<Rightarrow> 'a"

text \<open>
  In evaluation mode batch normalisation is, per channel, a fixed affine map of each
  value (built from the stored running statistics, scale and shift): \<open>bn_fn m j\<close> for
  channel \<open>j\<close>.
\<close>

definition BatchNorm2d_forward :: "'a BatchNorm2d \<Rightarrow> 'a tensor \<Rightarrow> py_exception + 'a tensor" where
  "BatchNorm2d_forward m x =
     (case shape x of
        [n, c, h, w] \<Rightarrow>
          if c \<noteq> num_features m then Inl (RuntimeError ''batch_norm: channel mismatch'')
          else Inr \<lparr>shape = [n, c, h, w],
                    elem = (\<lambda>idx. case idx of
                       [i, j, y, xx] \<Rightarrow> bn_fn m j (elem x idx)
                     | _ \<Rightarrow> elem x idx)\<rparr>
      | _ \<Rightarrow> Inl (ValueError ''expected 4D input''))"

definition ReLU_forward :: "'a::{zero,linorder} tensor \<Rightarrow> 'a tensor" where
  "ReLU_forward x = tensor_map (\<lambda>v. max v 0) x"

text \<open>
  \<^verbatim>\<open>MaxPool2d(kernel_size=2)\<close>: the stride defaults to the kernel size, there is no
  padding and sizes round down; an output axis of size 0 raises.
\<close>

definition MaxPool2d_forward :: "nat \<Rightarrow> 'a::linorder tensor \<Rightarrow> py_exception + 'a tensor" where
  "MaxPool2d_forward k x =
     (case shape x of
        [n, c, h, w] \<Rightarrow>
          if k = 0 \<or> h < k \<or> w < k then Inl (RuntimeError ''max_pool2d: Output size is too small'')
          else Inr \<lparr>shape = [n, c, (h - k) div k + 1, (w - k) div k + 1],
                    elem = (\<lambda>idx. case idx of
                       [i, j, y, xx] \<Rightarrow>
                         Max ((\<lambda>(dy, dx). elem x [i, j, y * k + dy, xx * k + dx])
                              ` ({0..<k} \<times> {0..<k}))
                     | _ \<Rightarrow> elem x idx)\<rparr>
      | _ \<Rightarrow> Inl (RuntimeError ''max_pool2d: expected a 4-D input''))"

record 'a ConvTranspose2d =
  ct_in_channels :: nat
  ct_out_channels :: nat
  ct_kernel_size :: nat
  ct_stride :: nat
  ct_fn :: "'a tensor \<Rightarrow> nat list \<Rightarrow> 'a"

definition ConvTranspose2d_forward ::
  "'a ConvTranspose2d \<Rightarrow> 'a tensor \<Rightarrow> py_exception + 'a tensor" where
  "ConvTranspose2d_forward m x =
     (case shape x of
        [n, c, h, w] \<Rightarrow>
          if c \<noteq> ct_in_channels m then Inl (RuntimeError ''conv_transpose2d: channel mismatch'')
          else if h = 0 \<or> w = 0
          then Inl (RuntimeError ''Only zero batch or zero channel inputs are supported'')
          else Inr \<lparr>shape = [n, ct_out_channels m,
                             (h - 1) * ct_stride m + ct_kernel_size m,
                             (w - 1) * ct_stride m + ct_kernel_size m],
                    elem = ct_fn m x\<rparr>
      | _ \<Rightarrow> Inl (RuntimeError ''conv_transpose2d: expected a 4-D input''))"

subsection \<open>The parameter file\<close>

text \<open>
  The parameter file (\<^verbatim>\<open>unet_model.pth\<close>) is read at startup and is not part of the program
  text, so its content is a parameter of the model. It maps the name of every learned
  layer to the layer's tensors; here, to the function that the layer computes with these
  tensors. Names follow the attribute path of the layer inside the network, as
  \<^verbatim>\<open>load_state_dict\<close> does (\<^verbatim>\<open>inc.double_conv.0\<close>, \<^verbatim>\<open>down1.double_conv.double_conv.0\<close>,
  \<^verbatim>\<open>up1.up\<close>, ...).
\<close>

record 'a state_dict =
  conv_w :: "string \<Rightarrow> 'a tensor \<Rightarrow> nat list \<Rightarrow> 'a"
  bn_w :: "string \<Rightarrow> nat \<Rightarrow> 'a \<Rightarrow> 'a"

subsection \<open>The module classes of the program\<close>

record 'a DoubleConv =
  dc_conv1 :: "'a Conv2d"
  dc_bn1 :: "'a BatchNorm2d"
  dc_conv2 :: "'a Conv2d"
  dc_bn2 :: "'a BatchNorm2d"

definition DoubleConv_init :: "'a state_dict \<Rightarrow> string \<Rightarrow> nat \<Rightarrow> nat \<Rightarrow> 'a DoubleConv" where
  "DoubleConv_init sd name cin cout =
     \<lparr>dc_conv1 = \<lparr>in_channels = cin, out_channels = cout, kernel_size = 3, padding = 1,
                  conv_fn = conv_w sd (name @ ''.double_conv.0'')\<rparr>,
      dc_bn1 = \<lparr>num_features = cout, bn_fn = bn_w sd (name @ ''.double_conv.1'')\<rparr>,
      dc_conv2 = \<lparr>in_channels = cout, out_channels = cout, kernel_size = 3, padding = 1,
                  conv_fn = conv_w sd (name @ ''.double_conv.3'')\<rparr>,
      dc_bn2 = \<lparr>num_features = cout, bn_fn = bn_w sd (name @ ''.double_conv.4'')\<rparr>\<rparr>"

definition DoubleConv_forward ::
  "'a::{zero,linorder} DoubleConv \<Rightarrow> 'a tensor \<Rightarrow> py_exception + 'a tensor" where
  "DoubleConv_forward m x =
     and_then (Conv2d_forward (dc_conv1 m) x) (\<lambda>x.
     and_then (BatchNorm2d_forward (dc_bn1 m) x) (\<lambda>x.
     and_then (Conv2d_forward (dc_conv2 m) (ReLU_forward x)) (\<lambda>x.
     and_then (BatchNorm2d_forward (dc_bn2 m) x) (\<lambda>x.
     Inr (ReLU_forward x)))))"

record 'a EncoderBlock =
  maxpool :: nat
  enc_double_conv :: "'a DoubleConv"

definition EncoderBlock_init :: "'a state_dict \<Rightarrow> string \<Rightarrow> nat \<Rightarrow> nat \<Rightarrow> 'a EncoderBlock" where
  "EncoderBlock_init sd name cin cout =
     \<lparr>maxpool = 2,
      enc_double_conv = DoubleConv_init sd (name @ ''.double_conv'') cin cout\<rparr>"

definition EncoderBlock_forward ::
  "'a::{zero,linorder} EncoderBlock \<Rightarrow> 'a tensor \<Rightarrow> py_exception + 'a tensor" where
  "EncoderBlock_forward m x =
     and_then (MaxPool2d_forward (maxpool m) x) (\<lambda>x.
     DoubleConv_forward (enc_double_conv m) x)"

record 'a DecoderBlock =
  up :: "'a ConvTranspose2d"
  dec_double_conv :: "'a DoubleConv"

definition DecoderBlock_init :: "'a state_dict \<Rightarrow> string \<Rightarrow> nat \<Rightarrow> nat \<Rightarrow> 'a DecoderBlock" where
  "DecoderBlock_init sd name cin cout =
     \<lparr>up = \<lparr>ct_in_channels = cin, ct_out_channels = cout, ct_kernel_size = 2, ct_stride = 2,
            ct_fn = conv_w sd (name @ ''.up'')\<rparr>,
      dec_double_conv = DoubleConv_init sd (name @ ''.double_conv'') cin cout\<rparr>"

text \<open>
  \<^verbatim>\<open>x.shape[-2:]\<close> of a 4-D tensor, and \<^verbatim>\<open>x.size(k)\<close>, which raises when the tensor has
  no axis \<open>k\<close>.
\<close>

definition shape_last2 :: "'a tensor \<Rightarrow> nat list" where
  "shape_last2 x = drop (length (shape x) - 2) (shape x)"

definition tensor_size :: "'a tensor \<Rightarrow> nat \<Rightarrow> py_exception + int" where
  "tensor_size x k =
     (if k < length (shape x) then Inr (int (shape x ! k))
      else Inl (IndexError ''Dimension out of range''))"

definition DecoderBlock_forward ::
  "'a::{zero,linorder} DecoderBlock \<Rightarrow> 'a tensor \<Rightarrow> 'a tensor \<Rightarrow> py_exception + 'a tensor" where
  "DecoderBlock_forward m x skip =
     and_then (ConvTranspose2d_forward (up m) x) (\<lambda>x.
     and_then
       (if shape_last2 x \<noteq> shape_last2 skip then
          and_then (tensor_size skip 2) (\<lambda>s2. and_then (tensor_size x 2) (\<lambda>x2.
          and_then (tensor_size skip 3) (\<lambda>s3. and_then (tensor_size x 3) (\<lambda>x3.
          let diff_y = s2 - x2; diff_x = s3 - x3
          in F_pad x (diff_x div 2) (diff_x - diff_x div 2)
                     (diff_y div 2) (diff_y - diff_y div 2)))))
        else Inr x) (\<lambda>x.
     and_then (torch_cat skip x) (\<lambda>x.
     DoubleConv_forward (dec_double_conv m) x)))"

record 'a UNet =
  inc :: "'a DoubleConv"
  down1 :: "'a EncoderBlock"
  down2 :: "'a EncoderBlock"
  down3 :: "'a EncoderBlock"
  down4 :: "'a EncoderBlock"
  up1 :: "'a DecoderBlock"
  up2 :: "'a DecoderBlock"
  up3 :: "'a DecoderBlock"
  up4 :: "'a DecoderBlock"
  outc :: "'a Conv2d"

definition UNet_init :: "'a state_dict \<Rightarrow> nat \<Rightarrow> nat \<Rightarrow> nat \<Rightarrow> 'a UNet" where
  "UNet_init sd in_ch out_ch base_channels =
     \<lparr>inc = DoubleConv_init sd ''inc'' in_ch base_channels,
      down1 = EncoderBlock_init sd ''down1'' base_channels (base_channels * 2),
      down2 = EncoderBlock_init sd ''down2'' (base_channels * 2) (base_channels * 4),
      down3 = EncoderBlock_init sd ''down3'' (base_channels * 4) (base_channels * 8),
      down4 = EncoderBlock_init sd ''down4'' (base_channels * 8) (base_channels * 16),
      up1 = DecoderBlock_init sd ''up1'' (base_channels * 16) (base_channels * 8),
      up2 = DecoderBlock_init sd ''up2'' (base_channels * 8) (base_channels * 4),
      up3 = DecoderBlock_init sd ''up3'' (base_channels * 4) (base_channels * 2),
      up4 = DecoderBlock_init sd ''up4'' (base_channels * 2) base_channels,
      outc = \<lparr>in_channels = base_channels, out_channels = out_ch, kernel_size = 1,
              padding = 0, conv_fn = conv_w sd ''outc''\<rparr>\<rparr>"

text \<open>The defaults of the constructor: \<^verbatim>\<open>in_channels=3, out_channels=1, base_channels=8\<close>.\<close>

definition UNet_default :: "'a state_dict \<Rightarrow> 'a UNet" where
  "UNet_default sd = UNet_init sd 3 1 8"

definition UNet_forward ::
  "'a::{zero,linorder} UNet \<Rightarrow> 'a tensor \<Rightarrow> py_exception + 'a tensor" where
  "UNet_forward m x =
     and_then (DoubleConv_forward (inc m) x) (\<lambda>x1.
     and_then (EncoderBlock_forward (down1 m) x1) (\<lambda>x2.
     and_then (EncoderBlock_forward (down2 m) x2) (\<lambda>x3.
     and_then (EncoderBlock_forward (down3 m) x3) (\<lambda>x4.
     and_then (EncoderBlock_forward (down4 m) x4) (\<lambda>x5.
     and_then (DecoderBlock_forward (up1 m) x5 x4) (\<lambda>x.
     and_then (DecoderBlock_forward (up2 m) x x3) (\<lambda>x.
     and_then (DecoderBlock_forward (up3 m) x x2) (\<lambda>x.
     and_then (DecoderBlock_forward (up4 m) x x1) (\<lambda>x.
     Conv2d_forward (outc m) x)))))))))"


subsection \<open>Images of Pillow\<close>

text \<open>
  An image is its size \<open>(width, height)\<close> and the pixel at every position \<open>(x, y)\<close>.
  The pixel type is the mode: \<open>byte\<close> for \<^verbatim>\<open>L\<close>, three bytes for \<^verbatim>\<open>RGB\<close>, four for
  \<^verbatim>\<open>RGBA\<close>.
\<close>

type_synonym byte = "8 word"
type_synonym rgb = "byte \<times> byte \<times> byte"
type_synonym rgba = "byte \<times> byte \<times> byte \<times> byte"

record 'p image =
  im_size :: "nat \<times> nat"
  getpixel :: "nat \<times> nat \<Rightarrow> 'p"

datatype resample = NEAREST | BOX | BILINEAR | HAMMING | BICUBIC | LANCZOS

text \<open>
  The resampling routine of Pillow is not part of the program: \<open>rs f im size pos\<close> stands
  for the pixel it computes at \<open>pos\<close> when it resamples \<open>im\<close> to \<open>size\<close> with filter \<open>f\<close>.
  \<^verbatim>\<open>Image.resize\<close> itself returns a copy when the size does not change.
\<close>

type_synonym 'p resampler = "resample \<Rightarrow> 'p image \<Rightarrow> nat \<times> nat \<Rightarrow> nat \<times> nat \<Rightarrow> 'p"

definition Image_resize :: "'p resampler \<Rightarrow> 'p image \<Rightarrow> nat \<times> nat \<Rightarrow> resample \<Rightarrow> 'p image" where
  "Image_resize rs im sz f =
     (if im_size im = sz then im else \<lparr>im_size = sz, getpixel = rs f im sz\<rparr>)"

definition convert_RGBA :: "rgb image \<Rightarrow> rgba image" where
  "convert_RGBA im =
     \<lparr>im_size = im_size im,
      getpixel = (\<lambda>pos. case getpixel im pos of (r, g, b) \<Rightarrow> (r, g, b, 255))\<rparr>"

definition Image_new :: "nat \<times> nat \<Rightarrow> 'p \<Rightarrow> 'p image" where
  "Image_new sz color = \<lparr>im_size = sz, getpixel = (\<lambda>pos. color)\<rparr>"

definition Image_point :: "byte image \<Rightarrow> (byte \<Rightarrow> byte) \<Rightarrow> byte image" where
  "Image_point im f = \<lparr>im_size = im_size im, getpixel = (\<lambda>pos. f (getpixel im pos))\<rparr>"

definition putalpha :: "rgba image \<Rightarrow> byte image \<Rightarrow> py_exception + rgba image" where
  "putalpha im alpha =
     (if im_size alpha \<noteq> im_size im then Inl (ValueError ''images do not match'')
      else Inr \<lparr>im_size = im_size im,
                getpixel = (\<lambda>pos. case getpixel im pos of
                              (r, g, b, a) \<Rightarrow> (r, g, b, getpixel alpha pos))\<rparr>)"

text \<open>
  \<^verbatim>\<open>Image.alpha_composite(dst, src)\<close>, the integer arithmetic of Pillow for one pixel.
  Where the source is fully transparent the destination pixel is copied. Otherwise the
  colours are mixed with 7 extra bits of precision, and a division by 255 is done as
  \<open>((a >> 8) + a) >> 8\<close>. All intermediate values stay below \<open>2 ^ 32\<close>, so natural numbers
  stand for the unsigned 32-bit variables.
\<close>

definition SHIFTFORDIV255 :: "nat \<Rightarrow> nat" where
  "SHIFTFORDIV255 a = (a div 256 + a) div 256"

definition composite_pixel :: "rgba \<Rightarrow> rgba \<Rightarrow> rgba" where
  "composite_pixel dst src =
     (case (dst, src) of ((dr, dg, db, da), (sr, sg, sb, sa)) \<Rightarrow>
        if sa = 0 then dst
        else
          let blend = unat da * (255 - unat sa);
              outa255 = unat sa * 255 + blend;
              coef1 = unat sa * 255 * 255 * 128 div outa255;
              coef2 = 255 * 128 - coef1;
              tmpr = unat sr * coef1 + unat dr * coef2;
              tmpg = unat sg * coef1 + unat dg * coef2;
              tmpb = unat sb * coef1 + unat db * coef2
          in (of_nat (SHIFTFORDIV255 (tmpr + 128 * 128) div 128),
              of_nat (SHIFTFORDIV255 (tmpg + 128 * 128) div 128),
              of_nat (SHIFTFORDIV255 (tmpb + 128 * 128) div 128),
              of_nat (SHIFTFORDIV255 (outa255 + 128))))"

definition alpha_composite :: "rgba image \<Rightarrow> rgba image \<Rightarrow> py_exception + rgba image" where
  "alpha_composite dst src =
     (if im_size dst \<noteq> im_size src then Inl (ValueError ''images do not match'')
      else Inr \<lparr>im_size = im_size dst,
                getpixel = (\<lambda>pos. composite_pixel (getpixel dst pos) (getpixel src pos))\<rparr>)"

text \<open>
  The specification of the overlay asks for "standard alpha blending" of a source value
  \<open>s\<close> with an overlay value \<open>ov\<close> at alpha \<open>a\<close> out of 255. Written out, this is
  \<open>(a * ov + (255 - a) * s) / 255\<close>, rounded to the nearest 8-bit value (255 is odd, so
  there are no ties). It is what the arithmetic of \<open>composite_pixel\<close> is compared with.
\<close>

definition alpha_blend :: "nat \<Rightarrow> nat \<Rightarrow> nat \<Rightarrow> nat" where
  "alpha_blend a ov s = (a * ov + (255 - a) * s + 127) div 255"

text \<open>
  \<^verbatim>\<open>Image.fromarray(a, mode="L")\<close>: at most two axes; a one-axis array is a column; the
  size of the image is \<open>(shape[1], shape[0])\<close>.
\<close>

definition fromarray_L :: "byte tensor \<Rightarrow> py_exception + byte image" where
  "fromarray_L a =
     (case shape a of
        [] \<Rightarrow> Inl (IndexError ''tuple index out of range'')
      | [h] \<Rightarrow> Inr \<lparr>im_size = (1, h), getpixel = (\<lambda>(x, y). elem a [y])\<rparr>
      | [h, w] \<Rightarrow> Inr \<lparr>im_size = (w, h), getpixel = (\<lambda>(x, y). elem a [y, x])\<rparr>
      | _ \<Rightarrow> Inl (ValueError ''Too many dimensions''))"

subsection \<open>Arrays: the steps between the network and the image\<close>

definition unsqueeze0 :: "'a tensor \<Rightarrow> 'a tensor" where
  "unsqueeze0 t =
     \<lparr>shape = 1 # shape t, elem = (\<lambda>idx. case idx of [] \<Rightarrow> elem t [] | i # rest \<Rightarrow> elem t rest)\<rparr>"

text \<open>
  \<^verbatim>\<open>squeeze()\<close> removes every axis of size 1. An index of the result is completed with
  0 at the removed axes.
\<close>

fun expand_index :: "nat list \<Rightarrow> nat list \<Rightarrow> nat list" where
  "expand_index [] idx = []"
| "expand_index (s # ss) idx =
     (if s = 1 then 0 # expand_index ss idx
      else (case idx of [] \<Rightarrow> [] | i # rest \<Rightarrow> i # expand_index ss rest))"

definition squeeze :: "'a tensor \<Rightarrow> 'a tensor" where
  "squeeze t =
     \<lparr>shape = filter (\<lambda>s. s \<noteq> 1) (shape t), elem = (\<lambda>idx. elem t (expand_index (shape t) idx))\<rparr>"

datatype 'a nested = Leaf 'a | Nest "'a nested list"

fun tolist_from :: "nat list \<Rightarrow> (nat list \<Rightarrow> 'a) \<Rightarrow> 'a nested" where
  "tolist_from [] f = Leaf (f [])"
| "tolist_from (n # ns) f = Nest (map (\<lambda>i. tolist_from ns (\<lambda>idx. f (i # idx))) [0..<n])"

definition tolist :: "'a tensor \<Rightarrow> 'a nested" where
  "tolist t = tolist_from (shape t) (elem t)"

text \<open>
  \<^verbatim>\<open>astype(np.uint8)\<close> on a float: the fraction is dropped (towards zero) and the integer
  is reduced to 8 bits. The program applies it to 0.0 and 255.0 only.
\<close>

definition astype_uint8 :: "real \<Rightarrow> byte" where
  "astype_uint8 v = word_of_int (if 0 \<le> v then \<lfloor>v\<rfloor> else \<lceil>v\<rceil>)"

definition sigmoid :: "real \<Rightarrow> real" where
  "sigmoid v = 1 / (1 + exp (- v))"

definition torch_sigmoid :: "real tensor \<Rightarrow> real tensor" where
  "torch_sigmoid t = tensor_map sigmoid t"

definition tensor_gt :: "real tensor \<Rightarrow> real \<Rightarrow> bool tensor" where
  "tensor_gt t c = tensor_map (\<lambda>p. p > c) t"

definition tensor_float :: "bool tensor \<Rightarrow> real tensor" where
  "tensor_float t = tensor_map (\<lambda>b. if b then 1 else 0) t"

subsection \<open>The preprocessing pipeline\<close>

definition IMG_SIZE :: nat where
  "IMG_SIZE = 128"

definition IMG_MEAN :: "real list" where
  "IMG_MEAN = [485 / 1000, 456 / 1000, 406 / 1000]"

definition IMG_STD :: "real list" where
  "IMG_STD = [229 / 1000, 224 / 1000, 225 / 1000]"

text \<open>
  \<^verbatim>\<open>T.Resize((h, w))\<close> on a Pillow image calls \<^verbatim>\<open>img.resize((w, h), BILINEAR)\<close>, bilinear
  being the default interpolation of the transform.
\<close>

definition T_Resize :: "rgb resampler \<Rightarrow> nat \<times> nat \<Rightarrow> rgb image \<Rightarrow> rgb image" where
  "T_Resize rs hw im = (case hw of (h, w) \<Rightarrow> Image_resize rs im (w, h) BILINEAR)"

definition channel :: "rgb \<Rightarrow> nat \<Rightarrow> byte" where
  "channel p c = (case p of (r, g, b) \<Rightarrow> if c = 0 then r else if c = 1 then g else b)"

text \<open>
  \<^verbatim>\<open>T.ToTensor()\<close> on an \<^verbatim>\<open>RGB\<close> image: a float tensor of shape \<open>[3, height, width]\<close>,
  every byte divided by 255.
\<close>

definition T_ToTensor :: "rgb image \<Rightarrow> real tensor" where
  "T_ToTensor im =
     (case im_size im of (w, h) \<Rightarrow>
        \<lparr>shape = [3, h, w],
         elem = (\<lambda>idx. case idx of
            [c, y, x] \<Rightarrow> real (unat (channel (getpixel im (x, y)) c)) / 255
          | _ \<Rightarrow> 0)\<rparr>)"

text \<open>
  \<^verbatim>\<open>T.Normalize(mean, std)\<close> on a tensor of shape \<open>[C, H, W]\<close>: a zero in \<open>std\<close> raises;
  then \<open>mean\<close> is subtracted and the result divided by \<open>std\<close>, per channel.
\<close>

definition T_Normalize :: "real list \<Rightarrow> real list \<Rightarrow> real tensor \<Rightarrow> py_exception + real tensor" where
  "T_Normalize mean std t =
     (case shape t of
        [c, h, w] \<Rightarrow>
          if 0 \<in> set std
          then Inl (ValueError ''std evaluated to zero after conversion, leading to division by zero.'')
          else if length mean \<noteq> c \<or> length std \<noteq> c
          then Inl (RuntimeError ''The size of tensor a must match the size of tensor b'')
          else Inr \<lparr>shape = [c, h, w],
                    elem = (\<lambda>idx. case idx of
                       [j, y, x] \<Rightarrow> (elem t idx - mean ! j) / std ! j
                     | _ \<Rightarrow> elem t idx)\<rparr>
      | _ \<Rightarrow> Inl (ValueError ''Expected tensor to be a tensor image of size (C, H, W)''))"

text \<open>\<^verbatim>\<open>T.Compose\<close> applies the three transforms in the order of the list.\<close>

definition preprocess :: "rgb resampler \<Rightarrow> rgb image \<Rightarrow> py_exception + real tensor" where
  "preprocess rs img =
     T_Normalize IMG_MEAN IMG_STD (T_ToTensor (T_Resize rs (IMG_SIZE, IMG_SIZE) img))"

subsection \<open>Prediction and the endpoints\<close>

text \<open>
  The module-level network: \<^verbatim>\<open>UNet(in_channels=3, out_channels=1, base_channels=8)\<close>,
  with the parameter file loaded into it, in evaluation mode.
\<close>

definition loaded_model :: "real state_dict \<Rightarrow> real UNet" where
  "loaded_model sd = UNet_init sd 3 1 8"

definition predict_mask_from_image ::
  "rgb resampler \<Rightarrow> real UNet \<Rightarrow> rgb image \<Rightarrow> py_exception + real tensor" where
  "predict_mask_from_image rs model img =
     and_then (preprocess rs img) (\<lambda>t.
     let input_tensor = unsqueeze0 t in
     and_then (UNet_forward model input_tensor) (\<lambda>outputs.
     let probabilities = torch_sigmoid outputs;
         predicted_mask = squeeze (tensor_float (tensor_gt probabilities (1 / 2)))
     in Inr predicted_mask))"

record upload_file =
  content_type :: "string option"
  filename :: "string option"
  contents :: "byte list"

datatype http_failure = HTTPException nat string | Uncaught py_exception

datatype response =
    Prediction "string option" "nat list" "real nested"
  | Png_L "byte image"
  | Png_RGBA "rgba image"

text \<open>
  \<^verbatim>\<open>Image.open(io.BytesIO(image_bytes)).convert("RGB")\<close> is the decoder of Pillow, a
  parameter \<open>decode\<close> here. Every endpoint returns its response together with the
  module-level network as it is after the request.
\<close>

type_synonym decoder = "byte list \<Rightarrow> py_exception + rgb image"

definition content_type_check :: "upload_file \<Rightarrow> http_failure + unit" where
  "content_type_check file =
     (case content_type file of
        None \<Rightarrow> Inl (Uncaught (AttributeError ''NoneType object has no attribute startswith''))
      | Some ct \<Rightarrow>
          if \<not> prefix ''image/'' ct
          then Inl (HTTPException 400 ''Invalid file type. Please upload an image.'')
          else Inr ())"

definition prediction_failed :: "py_exception + 'a \<Rightarrow> http_failure + 'a" where
  "prediction_failed r =
     (case r of
        Inl e \<Rightarrow> Inl (HTTPException 500 (''Prediction failed: '' @ str_of e))
      | Inr v \<Rightarrow> Inr v)"

definition segmentation_body ::
  "decoder \<Rightarrow> rgb resampler \<Rightarrow> real UNet \<Rightarrow> upload_file \<Rightarrow> py_exception + response" where
  "segmentation_body decode rs model file =
     and_then (decode (contents file)) (\<lambda>img.
     and_then (preprocess rs img) (\<lambda>t.
     let input_tensor = unsqueeze0 t in
     and_then (UNet_forward model input_tensor) (\<lambda>outputs.
     let probabilities = torch_sigmoid outputs;
         predicted_mask = squeeze (tensor_float (tensor_gt probabilities (1 / 2)))
     in Inr (Prediction (filename file) (shape predicted_mask) (tolist predicted_mask)))))"

definition predict_segmentation ::
  "decoder \<Rightarrow> rgb resampler \<Rightarrow> real UNet \<Rightarrow> upload_file \<Rightarrow> (http_failure + response) \<times> real UNet" where
  "predict_segmentation decode rs model file =
     (and_then (content_type_check file) (\<lambda>_.
        prediction_failed (segmentation_body decode rs model file)),
      model)"

definition mask_to_image :: "real tensor \<Rightarrow> py_exception + byte image" where
  "mask_to_image predicted_mask =
     fromarray_L (tensor_map astype_uint8 (tensor_map (\<lambda>v. v * 255) predicted_mask))"

definition mask_png_body ::
  "decoder \<Rightarrow> rgb resampler \<Rightarrow> real UNet \<Rightarrow> upload_file \<Rightarrow> py_exception + response" where
  "mask_png_body decode rs model file =
     and_then (decode (contents file)) (\<lambda>img.
     let resized_image = Image_resize rs img (IMG_SIZE, IMG_SIZE) BILINEAR in
     and_then (predict_mask_from_image rs model resized_image) (\<lambda>predicted_mask.
     and_then (mask_to_image predicted_mask) (\<lambda>mask_image.
     Inr (Png_L mask_image))))"

definition predict_mask_png ::
  "decoder \<Rightarrow> rgb resampler \<Rightarrow> real UNet \<Rightarrow> upload_file \<Rightarrow> (http_failure + response) \<times> real UNet" where
  "predict_mask_png decode rs model file =
     (and_then (content_type_check file) (\<lambda>_.
        prediction_failed (mask_png_body decode rs model file)),
      model)"

definition alpha_of :: "byte \<Rightarrow> byte" where
  "alpha_of p = (if p > 0 then 120 else 0)"

definition overlay_png_body ::
  "decoder \<Rightarrow> rgb resampler \<Rightarrow> real UNet \<Rightarrow> upload_file \<Rightarrow> py_exception + response" where
  "overlay_png_body decode rs model file =
     and_then (decode (contents file)) (\<lambda>img.
     let resized_image = Image_resize rs img (IMG_SIZE, IMG_SIZE) BILINEAR in
     and_then (predict_mask_from_image rs model resized_image) (\<lambda>predicted_mask.
     and_then (mask_to_image predicted_mask) (\<lambda>mask_image.
     let alpha = Image_point mask_image alpha_of in
     and_then (putalpha (Image_new (im_size resized_image) (255, 0, 0, 0)) alpha) (\<lambda>overlay.
     and_then (alpha_composite (convert_RGBA resized_image) overlay) (\<lambda>combined.
     Inr (Png_RGBA combined))))))"

definition predict_overlay_png ::
  "decoder \<Rightarrow> rgb resampler \<Rightarrow> real UNet \<Rightarrow> upload_file \<Rightarrow> (http_failure + response) \<times> real UNet" where
  "predict_overlay_png decode rs model file =
     (and_then (content_type_check file) (\<lambda>_.
        prediction_failed (overlay_png_body decode rs model file)),
      model)"

section \<open>Properties\<close>

subsection \<open>Shapes through the layers and blocks\<close>

lemma and_then_Inr: "and_then (Inr v) f = f v"
  by (simp add: and_then_def)

lemma and_then_Inl: "and_then (Inl e) f = Inl e"
  by (simp add: and_then_def)

lemma shape_ReLU: "shape (ReLU_forward x) = shape x"
  by (simp add: ReLU_forward_def tensor_map_def)

lemma Conv2d_forward_shape:
  assumes "shape x = [n, c, h, w]" "c = in_channels m"
    and "kernel_size m \<le> h + 2 * padding m" "kernel_size m \<le> w + 2 * padding m"
  shows "\<exists>y. Conv2d_forward m x = Inr y \<and>
     shape y = [n, out_channels m, h + 2 * padding m - kernel_size m + 1,
                w + 2 * padding m - kernel_size m + 1]"
  using assms by (simp add: Conv2d_forward_def)

lemma BatchNorm2d_forward_shape:
  assumes "shape x = [n, c, h, w]" "c = num_features m"
  shows "\<exists>y. BatchNorm2d_forward m x = Inr y \<and> shape y = [n, c, h, w]"
  using assms by (simp add: BatchNorm2d_forward_def)

lemma DoubleConv_forward_shape:
  assumes x: "shape x = [n, cin, h, w]" and h: "0 < h" and w: "0 < w"
  shows "\<exists>y. DoubleConv_forward (DoubleConv_init sd name cin cout) x = Inr y \<and>
     shape y = [n, cout, h, w]"
proof -
  let ?m = "DoubleConv_init sd name cin cout"
  obtain a where a: "Conv2d_forward (dc_conv1 ?m) x = Inr a" "shape a = [n, cout, h, w]"
    using Conv2d_forward_shape [of x n cin h w "dc_conv1 ?m"] x h w
    by (auto simp: DoubleConv_init_def)
  obtain b where b: "BatchNorm2d_forward (dc_bn1 ?m) a = Inr b" "shape b = [n, cout, h, w]"
    using BatchNorm2d_forward_shape [of a n cout h w "dc_bn1 ?m"] a
    by (auto simp: DoubleConv_init_def)
  obtain c where c: "Conv2d_forward (dc_conv2 ?m) (ReLU_forward b) = Inr c"
      "shape c = [n, cout, h, w]"
    using Conv2d_forward_shape [of "ReLU_forward b" n cout h w "dc_conv2 ?m"] b h w
    by (auto simp: DoubleConv_init_def shape_ReLU)
  obtain d where d: "BatchNorm2d_forward (dc_bn2 ?m) c = Inr d" "shape d = [n, cout, h, w]"
    using BatchNorm2d_forward_shape [of c n cout h w "dc_bn2 ?m"] c
    by (auto simp: DoubleConv_init_def)
  show ?thesis
    unfolding DoubleConv_forward_def
    by (simp add: a b c d and_then_Inr shape_ReLU)
qed

lemma MaxPool2d_forward_shape:
  assumes "shape x = [n, c, h, w]" "2 \<le> h" "2 \<le> w"
  shows "\<exists>y. MaxPool2d_forward 2 x = Inr y \<and> shape y = [n, c, h div 2, w div 2]"
proof -
  have "(h - 2) div 2 + 1 = h div 2" "(w - 2) div 2 + 1 = w div 2"
    using assms by presburger+
  then show ?thesis using assms by (simp add: MaxPool2d_forward_def)
qed

lemma EncoderBlock_forward_shape:
  assumes x: "shape x = [n, cin, h, w]" and h: "2 \<le> h" and w: "2 \<le> w"
  shows "\<exists>y. EncoderBlock_forward (EncoderBlock_init sd name cin cout) x = Inr y \<and>
     shape y = [n, cout, h div 2, w div 2]"
proof -
  obtain p where p: "MaxPool2d_forward 2 x = Inr p" "shape p = [n, cin, h div 2, w div 2]"
    using MaxPool2d_forward_shape [OF x h w] by blast
  have "0 < h div 2" "0 < w div 2" using h w by simp_all
  from DoubleConv_forward_shape [OF p(2) this, of sd "name @ ''.double_conv''" cout] p(1)
  show ?thesis
    by (simp add: EncoderBlock_forward_def EncoderBlock_init_def and_then_Inr)
qed


lemma ConvTranspose2d_forward_shape:
  assumes "shape x = [n, c, h, w]" "c = ct_in_channels m" "0 < h" "0 < w"
  shows "\<exists>y. ConvTranspose2d_forward m x = Inr y \<and>
     shape y = [n, ct_out_channels m, (h - 1) * ct_stride m + ct_kernel_size m,
                (w - 1) * ct_stride m + ct_kernel_size m]"
  using assms by (simp add: ConvTranspose2d_forward_def)

lemma F_pad_to_size:
  assumes u: "shape u = [n, c, hu, wu]"
  shows "\<exists>p. F_pad u ((int ws - int wu) div 2) ((int ws - int wu) - (int ws - int wu) div 2)
               ((int hs - int hu) div 2) ((int hs - int hu) - (int hs - int hu) div 2) = Inr p \<and>
     shape p = [n, c, hs, ws] \<and>
     (\<forall>i j y xx. elem p [i, j, y, xx] =
        (if 0 \<le> int y - (int hs - int hu) div 2 \<and> int y - (int hs - int hu) div 2 < int hu \<and>
            0 \<le> int xx - (int ws - int wu) div 2 \<and> int xx - (int ws - int wu) div 2 < int wu
         then elem u [i, j, nat (int y - (int hs - int hu) div 2),
                      nat (int xx - (int ws - int wu) div 2)]
         else 0))"
  using u by (simp add: F_pad_def Let_def)

lemma shape_last2_4: "shape x = [n, c, h, w] \<Longrightarrow> shape_last2 x = [h, w]"
  by (simp add: shape_last2_def)

lemma tensor_size_4:
  assumes "shape x = [n, c, h, w]"
  shows "tensor_size x 2 = Inr (int h)" "tensor_size x 3 = Inr (int w)"
  using assms by (simp_all add: tensor_size_def)

lemma DecoderBlock_forward_differ:
  fixes m :: "'a::{zero,linorder} DecoderBlock"
  assumes up: "ConvTranspose2d_forward (up m) x = Inr u"
    and u: "shape u = [n, cu, hu, wu]"
    and s: "shape skip = [n', cs, hs, ws]"
    and d: "(hu, wu) \<noteq> (hs, ws)"
  shows "DecoderBlock_forward m x skip =
     and_then (F_pad u ((int ws - int wu) div 2) ((int ws - int wu) - (int ws - int wu) div 2)
                       ((int hs - int hu) div 2) ((int hs - int hu) - (int hs - int hu) div 2))
       (\<lambda>p. and_then (torch_cat skip p) (DoubleConv_forward (dec_double_conv m)))"
  using d
  by (auto simp add: DecoderBlock_forward_def up and_then_Inr shape_last2_4 [OF u]
      shape_last2_4 [OF s] tensor_size_4 [OF u] tensor_size_4 [OF s] Let_def)

lemma DecoderBlock_forward_same:
  fixes m :: "'a::{zero,linorder} DecoderBlock"
  assumes up: "ConvTranspose2d_forward (up m) x = Inr u"
    and u: "shape u = [n, cu, hs, ws]"
    and s: "shape skip = [n', cs, hs, ws]"
  shows "DecoderBlock_forward m x skip =
     and_then (torch_cat skip u) (DoubleConv_forward (dec_double_conv m))"
  by (simp add: DecoderBlock_forward_def up and_then_Inr shape_last2_4 [OF u]
      shape_last2_4 [OF s])

lemma torch_cat_4:
  assumes "shape a = [n, ca, h, w]" "shape b = [n, cb, h, w]"
  shows "\<exists>c. torch_cat a b = Inr c \<and> shape c = [n, ca + cb, h, w] \<and>
     (\<forall>i j y xx. elem c [i, j, y, xx] =
        (if j < ca then elem a [i, j, y, xx] else elem b [i, j - ca, y, xx]))"
  using assms by (simp add: torch_cat_def)

lemma DecoderBlock_forward_shape:
  assumes x: "shape x = [n, cin, h, w]" and h: "0 < h" and w: "0 < w"
    and s: "shape skip = [n, cs, hs, ws]" and c: "cs + cout = cin"
    and hs: "0 < hs" and ws: "0 < ws"
  shows "\<exists>y. DecoderBlock_forward (DecoderBlock_init sd name cin cout) x skip = Inr y \<and>
     shape y = [n, cout, hs, ws]"
proof -
  let ?m = "DecoderBlock_init sd name cin cout"
  have dc: "dec_double_conv ?m = DoubleConv_init sd (name @ ''.double_conv'') cin cout"
    by (simp add: DecoderBlock_init_def)
  obtain u where u: "ConvTranspose2d_forward (up ?m) x = Inr u"
      "shape u = [n, cout, (h - 1) * 2 + 2, (w - 1) * 2 + 2]"
    using ConvTranspose2d_forward_shape [of x n cin h w "up ?m"] x h w
    by (auto simp: DecoderBlock_init_def)
  show ?thesis
  proof (cases "((h - 1) * 2 + 2, (w - 1) * 2 + 2) = (hs, ws)")
    case True
    then have u': "shape u = [n, cout, hs, ws]" using u(2) by simp
    obtain c' where cat: "torch_cat skip u = Inr c'" "shape c' = [n, cs + cout, hs, ws]"
      using torch_cat_4 [OF s u'] by blast
    show ?thesis
      unfolding DecoderBlock_forward_same [OF u(1) u' s] cat and_then_Inr dc
      by (rule DoubleConv_forward_shape) (simp_all add: cat c hs ws)
  next
    case False
    obtain p where pad: "F_pad u ((int ws - int ((w - 1) * 2 + 2)) div 2)
        ((int ws - int ((w - 1) * 2 + 2)) - (int ws - int ((w - 1) * 2 + 2)) div 2)
        ((int hs - int ((h - 1) * 2 + 2)) div 2)
        ((int hs - int ((h - 1) * 2 + 2)) - (int hs - int ((h - 1) * 2 + 2)) div 2) = Inr p"
      "shape p = [n, cout, hs, ws]"
      using F_pad_to_size [OF u(2), of ws hs] by blast
    obtain c' where cat: "torch_cat skip p = Inr c'" "shape c' = [n, cs + cout, hs, ws]"
      using torch_cat_4 [OF s pad(2)] by blast
    show ?thesis
      unfolding DecoderBlock_forward_differ [OF u(1) u(2) s False] pad and_then_Inr cat dc
      by (rule DoubleConv_forward_shape) (simp_all add: cat c hs ws)
  qed
qed


lemma UNet_forward_trace:
  fixes sd :: "'a::{zero,linorder} state_dict"
  assumes x: "shape x = [n, cin, h, w]" and h: "16 \<le> h" and w: "16 \<le> w"
  shows "\<exists>x1 x2 x3 x4 x5 y1 y2 y3 y4 out.
     DoubleConv_forward (inc (UNet_init sd cin cout b)) x = Inr x1 \<and>
     shape x1 = [n, b, h, w] \<and>
     EncoderBlock_forward (down1 (UNet_init sd cin cout b)) x1 = Inr x2 \<and>
     shape x2 = [n, b * 2, h div 2, w div 2] \<and>
     EncoderBlock_forward (down2 (UNet_init sd cin cout b)) x2 = Inr x3 \<and>
     shape x3 = [n, b * 4, h div 4, w div 4] \<and>
     EncoderBlock_forward (down3 (UNet_init sd cin cout b)) x3 = Inr x4 \<and>
     shape x4 = [n, b * 8, h div 8, w div 8] \<and>
     EncoderBlock_forward (down4 (UNet_init sd cin cout b)) x4 = Inr x5 \<and>
     shape x5 = [n, b * 16, h div 16, w div 16] \<and>
     DecoderBlock_forward (up1 (UNet_init sd cin cout b)) x5 x4 = Inr y1 \<and>
     shape y1 = [n, b * 8, h div 8, w div 8] \<and>
     DecoderBlock_forward (up2 (UNet_init sd cin cout b)) y1 x3 = Inr y2 \<and>
     shape y2 = [n, b * 4, h div 4, w div 4] \<and>
     DecoderBlock_forward (up3 (UNet_init sd cin cout b)) y2 x2 = Inr y3 \<and>
     shape y3 = [n, b * 2, h div 2, w div 2] \<and>
     DecoderBlock_forward (up4 (UNet_init sd cin cout b)) y3 x1 = Inr y4 \<and>
     shape y4 = [n, b, h, w] \<and>
     Conv2d_forward (outc (UNet_init sd cin cout b)) y4 = Inr out \<and>
     shape out = [n, cout, h, w] \<and>
     UNet_forward (UNet_init sd cin cout b) x = Inr out"
proof -
  let ?u = "UNet_init sd cin cout b"
  have hh: "2 \<le> h" "2 \<le> h div 2" "2 \<le> h div 4" "2 \<le> h div 8"
      "0 < h" "0 < h div 2" "0 < h div 4" "0 < h div 8" "0 < h div 16"
    using h by simp_all
  have ww: "2 \<le> w" "2 \<le> w div 2" "2 \<le> w div 4" "2 \<le> w div 8"
      "0 < w" "0 < w div 2" "0 < w div 4" "0 < w div 8" "0 < w div 16"
    using w by simp_all
  have dd: "h div 2 div 2 = h div 4" "h div 4 div 2 = h div 8" "h div 8 div 2 = h div 16"
      "w div 2 div 2 = w div 4" "w div 4 div 2 = w div 8" "w div 8 div 2 = w div 16"
    by (simp_all add: div_mult2_eq [symmetric])
  obtain x1 where x1: "DoubleConv_forward (inc ?u) x = Inr x1" "shape x1 = [n, b, h, w]"
    using DoubleConv_forward_shape [OF x hh(5) ww(5), of sd "''inc''" b]
    by (auto simp: UNet_init_def)
  obtain x2 where x2: "EncoderBlock_forward (down1 ?u) x1 = Inr x2"
      "shape x2 = [n, b * 2, h div 2, w div 2]"
    using EncoderBlock_forward_shape [OF x1(2) hh(1) ww(1), of sd "''down1''" "b * 2"]
    by (auto simp: UNet_init_def)
  obtain x3 where x3: "EncoderBlock_forward (down2 ?u) x2 = Inr x3"
      "shape x3 = [n, b * 4, h div 4, w div 4]"
    using EncoderBlock_forward_shape [OF x2(2) hh(2) ww(2), of sd "''down2''" "b * 4"]
    by (auto simp: UNet_init_def dd)
  obtain x4 where x4: "EncoderBlock_forward (down3 ?u) x3 = Inr x4"
      "shape x4 = [n, b * 8, h div 8, w div 8]"
    using EncoderBlock_forward_shape [OF x3(2) hh(3) ww(3), of sd "''down3''" "b * 8"]
    by (auto simp: UNet_init_def dd)
  obtain x5 where x5: "EncoderBlock_forward (down4 ?u) x4 = Inr x5"
      "shape x5 = [n, b * 16, h div 16, w div 16]"
    using EncoderBlock_forward_shape [OF x4(2) hh(4) ww(4), of sd "''down4''" "b * 16"]
    by (auto simp: UNet_init_def dd)
  obtain y1 where y1: "DecoderBlock_forward (up1 ?u) x5 x4 = Inr y1"
      "shape y1 = [n, b * 8, h div 8, w div 8]"
    using DecoderBlock_forward_shape [OF x5(2) hh(9) ww(9) x4(2) _ hh(8) ww(8),
        of "b * 8" sd "''up1''"]
    by (auto simp: UNet_init_def)
  obtain y2 where y2: "DecoderBlock_forward (up2 ?u) y1 x3 = Inr y2"
      "shape y2 = [n, b * 4, h div 4, w div 4]"
    using DecoderBlock_forward_shape [OF y1(2) hh(8) ww(8) x3(2) _ hh(7) ww(7),
        of "b * 4" sd "''up2''"]
    by (auto simp: UNet_init_def)
  obtain y3 where y3: "DecoderBlock_forward (up3 ?u) y2 x2 = Inr y3"
      "shape y3 = [n, b * 2, h div 2, w div 2]"
    using DecoderBlock_forward_shape [OF y2(2) hh(7) ww(7) x2(2) _ hh(6) ww(6),
        of "b * 2" sd "''up3''"]
    by (auto simp: UNet_init_def)
  obtain y4 where y4: "DecoderBlock_forward (up4 ?u) y3 x1 = Inr y4"
      "shape y4 = [n, b, h, w]"
    using DecoderBlock_forward_shape [OF y3(2) hh(6) ww(6) x1(2) _ hh(5) ww(5),
        of b sd "''up4''"]
    by (auto simp: UNet_init_def)
  obtain out where out: "Conv2d_forward (outc ?u) y4 = Inr out" "shape out = [n, cout, h, w]"
    using Conv2d_forward_shape [OF y4(2), of "outc ?u"] hh(5) ww(5)
    by (auto simp: UNet_init_def)
  have "UNet_forward ?u x = Inr out"
    unfolding UNet_forward_def
    by (simp only: x1 x2 x3 x4 x5 y1 y2 y3 y4 out and_then_Inr)
  with x1 x2 x3 x4 x5 y1 y2 y3 y4 out show ?thesis by blast
qed

subsection \<open>Preprocessing\<close>

lemma im_size_Image_resize: "im_size (Image_resize rs im sz f) = sz"
  by (simp add: Image_resize_def)

lemma shape_T_ToTensor: "shape (T_ToTensor im) = [3, snd (im_size im), fst (im_size im)]"
  by (simp add: T_ToTensor_def split: prod.splits)

lemma elem_T_ToTensor:
  "elem (T_ToTensor im) [c, y, x] = real (unat (channel (getpixel im (x, y)) c)) / 255"
  by (simp add: T_ToTensor_def split: prod.splits)

lemma byte_unit_interval: "0 \<le> real (unat (v :: byte)) / 255 \<and> real (unat v) / 255 \<le> 1"
proof -
  have "unat v < 256" using unsigned_less [of v, where ?'a = nat] by simp
  then have "unat v \<le> 255" by simp
  then have "real (unat v) \<le> real 255" by (rule of_nat_mono)
  moreover have "0 \<le> real (unat v)" by (rule of_nat_0_le_iff)
  ultimately show ?thesis by simp
qed

lemma T_Normalize_IMG:
  assumes "shape t = [3, h, w]"
  shows "\<exists>r. T_Normalize IMG_MEAN IMG_STD t = Inr r \<and> shape r = [3, h, w] \<and>
     (\<forall>c y x. elem r [c, y, x] = (elem t [c, y, x] - IMG_MEAN ! c) / IMG_STD ! c)"
  using assms by (simp add: T_Normalize_def IMG_MEAN_def IMG_STD_def)

lemma preprocess_ok:
  "\<exists>t. preprocess rs img = Inr t \<and> shape t = [3, IMG_SIZE, IMG_SIZE] \<and>
     (\<forall>c y x. elem t [c, y, x] =
        (real (unat (channel (getpixel (Image_resize rs img (IMG_SIZE, IMG_SIZE) BILINEAR) (x, y)) c)) / 255
          - IMG_MEAN ! c) / IMG_STD ! c)"
proof -
  let ?r = "Image_resize rs img (IMG_SIZE, IMG_SIZE) BILINEAR"
  have "shape (T_ToTensor ?r) = [3, IMG_SIZE, IMG_SIZE]"
    by (simp add: shape_T_ToTensor im_size_Image_resize)
  from T_Normalize_IMG [OF this] show ?thesis
    by (simp add: preprocess_def T_Resize_def elem_T_ToTensor)
qed

subsection \<open>Sigmoid, threshold and the predicted mask\<close>


lemma sigmoid_gt_half: "sigmoid v > 1 / 2 \<longleftrightarrow> v > 0"
proof -
  have pos: "0 < 1 + exp (- v)" by (simp add: add_pos_pos)
  have "sigmoid v > 1 / 2 \<longleftrightarrow> 1 + exp (- v) < 2"
    unfolding sigmoid_def using pos by (simp add: field_simps)
  also have "\<dots> \<longleftrightarrow> exp (- v) < exp 0" by simp
  also have "\<dots> \<longleftrightarrow> v > 0" by (simp only: exp_less_cancel_iff) simp
  finally show ?thesis .
qed

lemma sigmoid_eq_half: "sigmoid v = 1 / 2 \<longleftrightarrow> v = 0"
proof -
  have pos: "0 < 1 + exp (- v)" by (simp add: add_pos_pos)
  have "sigmoid v = 1 / 2 \<longleftrightarrow> 1 + exp (- v) = 2"
    unfolding sigmoid_def using pos by (simp add: field_simps)
  also have "\<dots> \<longleftrightarrow> exp (- v) = exp 0" by simp
  also have "\<dots> \<longleftrightarrow> v = 0" by (simp only: exp_inj_iff) simp
  finally show ?thesis .
qed

lemma sigmoid_mono: "a \<le> b \<Longrightarrow> sigmoid a \<le> sigmoid b"
proof -
  assume "a \<le> b"
  then have "exp (- b) \<le> exp (- a)" by simp
  moreover have "0 < 1 + exp (- a)" "0 < 1 + exp (- b)" by (simp_all add: add_pos_pos)
  ultimately show ?thesis
    unfolding sigmoid_def by (simp add: frac_le)
qed

lemma elem_binarized:
  "elem (tensor_float (tensor_gt (torch_sigmoid t) (1 / 2))) idx =
     (if sigmoid (elem t idx) > 1 / 2 then 1 else 0)"
  by (simp add: tensor_float_def tensor_gt_def torch_sigmoid_def tensor_map_def)

lemma shape_binarized:
  "shape (tensor_float (tensor_gt (torch_sigmoid t) (1 / 2))) = shape t"
  by (simp add: tensor_float_def tensor_gt_def torch_sigmoid_def tensor_map_def)

lemma squeeze_11hw:
  assumes "shape t = [1, 1, h, w]" "h \<noteq> 1" "w \<noteq> 1"
  shows "shape (squeeze t) = [h, w]" "elem (squeeze t) [y, x] = elem t [0, 0, y, x]"
  using assms by (simp_all add: squeeze_def)

lemma predict_mask_from_image_ok:
  "\<exists>t outputs mask.
     preprocess rs img = Inr t \<and>
     UNet_forward (loaded_model sd) (unsqueeze0 t) = Inr outputs \<and>
     shape outputs = [1, 1, 128, 128] \<and>
     predict_mask_from_image rs (loaded_model sd) img = Inr mask \<and>
     mask = squeeze (tensor_float (tensor_gt (torch_sigmoid outputs) (1 / 2))) \<and>
     shape mask = [128, 128] \<and>
     (\<forall>y x. elem mask [y, x] = (if sigmoid (elem outputs [0, 0, y, x]) > 1 / 2 then 1 else 0))"
proof -
  obtain t where t: "preprocess rs img = Inr t" "shape t = [3, IMG_SIZE, IMG_SIZE]"
    using preprocess_ok [of rs img] by blast
  have s: "shape (unsqueeze0 t) = [1, 3, 128, 128]"
    by (simp add: unsqueeze0_def t IMG_SIZE_def)
  obtain outputs where o: "UNet_forward (loaded_model sd) (unsqueeze0 t) = Inr outputs"
      "shape outputs = [1, 1, 128, 128]"
    using UNet_forward_trace [OF s, of sd 1 8] unfolding loaded_model_def by auto
  let ?b = "tensor_float (tensor_gt (torch_sigmoid outputs) (1 / 2))"
  have sb: "shape ?b = [1, 1, 128, 128]" by (simp add: shape_binarized o)
  have "predict_mask_from_image rs (loaded_model sd) img = Inr (squeeze ?b)"
    by (simp add: predict_mask_from_image_def t o and_then_Inr)
  moreover have "shape (squeeze ?b) = [128, 128]"
    using squeeze_11hw(1) [OF sb] by simp
  moreover have "\<forall>y x. elem (squeeze ?b) [y, x] =
      (if sigmoid (elem outputs [0, 0, y, x]) > 1 / 2 then 1 else 0)"
    using squeeze_11hw(2) [OF sb] by (simp add: elem_binarized)
  ultimately show ?thesis using t o by simp
qed

subsection \<open>The threshold\<close>



text \<open>
  C5. Sigmoid followed by the threshold is monotone in the logit: when the logit at an
  index does not decrease, a foreground pixel stays foreground.
\<close>

theorem threshold_monotone_in_logit:
  assumes "elem a idx \<le> elem b idx"
    and "elem (tensor_float (tensor_gt (torch_sigmoid a) (1 / 2))) idx = 1"
  shows "elem (tensor_float (tensor_gt (torch_sigmoid b) (1 / 2))) idx = 1"
proof -
  from assms(2) have "sigmoid (elem a idx) > 1 / 2"
    by (simp add: elem_binarized split: if_splits)
  with sigmoid_mono [OF assms(1)] have "sigmoid (elem b idx) > 1 / 2" by linarith
  then show ?thesis by (simp add: elem_binarized)
qed

theorem threshold_monotone_in_logit_witness:
  "elem (tensor_float (tensor_gt (torch_sigmoid \<lparr>shape = [1, 1, 2, 2], elem = (\<lambda>idx. 3)\<rparr>) (1 / 2)))
     [0, 0, 1, 0] = 1"
proof -
  let ?a = "\<lparr>shape = [1, 1, 2, 2], elem = (\<lambda>idx. 2 :: real)\<rparr>"
  let ?b = "\<lparr>shape = [1, 1, 2, 2], elem = (\<lambda>idx. 3 :: real)\<rparr>"
  have le: "elem ?a [0, 0, 1, 0] \<le> elem ?b [0, 0, 1, 0]" by simp
  have fg: "elem (tensor_float (tensor_gt (torch_sigmoid ?a) (1 / 2))) [0, 0, 1, 0] = 1"
    using sigmoid_gt_half [of 2] by (simp add: elem_binarized)
  show ?thesis by (rule threshold_monotone_in_logit [OF le fg])
qed

subsection \<open>The assembly of the network\<close>

text \<open>
  C1. The network built by \<^verbatim>\<open>UNet(3, 1, b)\<close> (the constructor's default \<open>b\<close> is 8) is:
  a stem DoubleConv from 3 to \<open>b\<close> channels; four EncoderBlocks to \<open>2b\<close>, \<open>4b\<close>, \<open>8b\<close> and
  \<open>16b\<close> channels; four DecoderBlocks back to \<open>8b\<close>, \<open>4b\<close>, \<open>2b\<close> and \<open>b\<close> channels; a final
  convolution with kernel size 1 from \<open>b\<close> channels to 1. On an input of shape
  \<open>[n, 3, h, w]\<close> with \<open>h\<close> and \<open>w\<close> at least 16 the forward pass succeeds. The four skips
  are the four outputs of the encoder side that are consumed as skips (the stem output
  \<open>x1\<close> and the outputs \<open>x2\<close>, \<open>x3\<close>, \<open>x4\<close> of the first three EncoderBlocks), deepest
  first: the first DecoderBlock upsamples the bottleneck \<open>x5\<close> and takes \<open>x4\<close>, the last
  of them, as its skip; the next ones take \<open>x3\<close>, \<open>x2\<close> and \<open>x1\<close>. The result has one channel
  and the spatial size of the input.
\<close>

theorem UNet_assembly:
  fixes sd :: "'a::{zero,linorder} state_dict"
  assumes b: "0 < b" and x: "shape x = [n, 3, h, w]" and h: "16 \<le> h" and w: "16 \<le> w"
  shows
    "UNet_default sd = UNet_init sd 3 1 8 \<and>
     inc (UNet_init sd 3 1 b) = DoubleConv_init sd ''inc'' 3 b \<and>
     in_channels (dc_conv1 (inc (UNet_init sd 3 1 b))) = 3 \<and>
     out_channels (dc_conv2 (inc (UNet_init sd 3 1 b))) = b \<and>
     down1 (UNet_init sd 3 1 b) = EncoderBlock_init sd ''down1'' b (b * 2) \<and>
     down2 (UNet_init sd 3 1 b) = EncoderBlock_init sd ''down2'' (b * 2) (b * 4) \<and>
     down3 (UNet_init sd 3 1 b) = EncoderBlock_init sd ''down3'' (b * 4) (b * 8) \<and>
     down4 (UNet_init sd 3 1 b) = EncoderBlock_init sd ''down4'' (b * 8) (b * 16) \<and>
     up1 (UNet_init sd 3 1 b) = DecoderBlock_init sd ''up1'' (b * 16) (b * 8) \<and>
     up2 (UNet_init sd 3 1 b) = DecoderBlock_init sd ''up2'' (b * 8) (b * 4) \<and>
     up3 (UNet_init sd 3 1 b) = DecoderBlock_init sd ''up3'' (b * 4) (b * 2) \<and>
     up4 (UNet_init sd 3 1 b) = DecoderBlock_init sd ''up4'' (b * 2) b \<and>
     in_channels (outc (UNet_init sd 3 1 b)) = b \<and>
     out_channels (outc (UNet_init sd 3 1 b)) = 1 \<and>
     kernel_size (outc (UNet_init sd 3 1 b)) = 1 \<and>
     (\<exists>x1 x2 x3 x4 x5 y1 y2 y3 y4 out.
        DoubleConv_forward (inc (UNet_init sd 3 1 b)) x = Inr x1 \<and>
        shape x1 = [n, b, h, w] \<and>
        EncoderBlock_forward (down1 (UNet_init sd 3 1 b)) x1 = Inr x2 \<and>
        shape x2 = [n, b * 2, h div 2, w div 2] \<and>
        EncoderBlock_forward (down2 (UNet_init sd 3 1 b)) x2 = Inr x3 \<and>
        shape x3 = [n, b * 4, h div 4, w div 4] \<and>
        EncoderBlock_forward (down3 (UNet_init sd 3 1 b)) x3 = Inr x4 \<and>
        shape x4 = [n, b * 8, h div 8, w div 8] \<and>
        EncoderBlock_forward (down4 (UNet_init sd 3 1 b)) x4 = Inr x5 \<and>
        shape x5 = [n, b * 16, h div 16, w div 16] \<and>
        DecoderBlock_forward (up1 (UNet_init sd 3 1 b)) x5 x4 = Inr y1 \<and>
        shape y1 = [n, b * 8, h div 8, w div 8] \<and>
        DecoderBlock_forward (up2 (UNet_init sd 3 1 b)) y1 x3 = Inr y2 \<and>
        shape y2 = [n, b * 4, h div 4, w div 4] \<and>
        DecoderBlock_forward (up3 (UNet_init sd 3 1 b)) y2 x2 = Inr y3 \<and>
        shape y3 = [n, b * 2, h div 2, w div 2] \<and>
        DecoderBlock_forward (up4 (UNet_init sd 3 1 b)) y3 x1 = Inr y4 \<and>
        shape y4 = [n, b, h, w] \<and>
        Conv2d_forward (outc (UNet_init sd 3 1 b)) y4 = Inr out \<and>
        shape out = [n, 1, h, w] \<and>
        UNet_forward (UNet_init sd 3 1 b) x = Inr out)"
proof -
  have "UNet_default sd = UNet_init sd 3 1 8" by (simp add: UNet_default_def)
  moreover have
    "inc (UNet_init sd 3 1 b) = DoubleConv_init sd ''inc'' 3 b"
    "in_channels (dc_conv1 (inc (UNet_init sd 3 1 b))) = 3"
    "out_channels (dc_conv2 (inc (UNet_init sd 3 1 b))) = b"
    by (simp_all add: UNet_init_def DoubleConv_init_def)
  moreover have
    "down1 (UNet_init sd 3 1 b) = EncoderBlock_init sd ''down1'' b (b * 2)"
    "down2 (UNet_init sd 3 1 b) = EncoderBlock_init sd ''down2'' (b * 2) (b * 4)"
    "down3 (UNet_init sd 3 1 b) = EncoderBlock_init sd ''down3'' (b * 4) (b * 8)"
    "down4 (UNet_init sd 3 1 b) = EncoderBlock_init sd ''down4'' (b * 8) (b * 16)"
    by (simp_all add: UNet_init_def)
  moreover have
    "up1 (UNet_init sd 3 1 b) = DecoderBlock_init sd ''up1'' (b * 16) (b * 8)"
    "up2 (UNet_init sd 3 1 b) = DecoderBlock_init sd ''up2'' (b * 8) (b * 4)"
    "up3 (UNet_init sd 3 1 b) = DecoderBlock_init sd ''up3'' (b * 4) (b * 2)"
    "up4 (UNet_init sd 3 1 b) = DecoderBlock_init sd ''up4'' (b * 2) b"
    by (simp_all add: UNet_init_def)
  moreover have
    "in_channels (outc (UNet_init sd 3 1 b)) = b"
    "out_channels (outc (UNet_init sd 3 1 b)) = 1"
    "kernel_size (outc (UNet_init sd 3 1 b)) = 1"
    by (simp_all add: UNet_init_def)
  moreover note UNet_forward_trace [OF x h w, of sd 1 b]
  ultimately show ?thesis by (intro conjI)
qed

theorem UNet_assembly_witness:
  "\<exists>out. UNet_forward (UNet_default \<lparr>conv_w = (\<lambda>name t idx. 0 :: int), bn_w = (\<lambda>name j v. v)\<rparr>)
            \<lparr>shape = [1, 3, 128, 128], elem = (\<lambda>idx. 1)\<rparr> = Inr out \<and>
         shape out = [1, 1, 128, 128]"
proof -
  let ?sd = "\<lparr>conv_w = (\<lambda>name t idx. 0 :: int), bn_w = (\<lambda>name j v. v)\<rparr>"
  let ?x = "\<lparr>shape = [1, 3, 128, 128], elem = (\<lambda>idx. 1 :: int)\<rparr>"
  have b: "0 < (8 :: nat)" by simp
  have x: "shape ?x = [1, 3, 128, 128]" by simp
  have h: "(16 :: nat) \<le> 128" by simp
  from UNet_assembly [OF b x h h, of ?sd] show ?thesis
    by (auto simp: UNet_default_def)
qed

subsection \<open>The decoder block\<close>

text \<open>
  C2. In a DecoderBlock, when the height or width of the upsampled tensor \<open>u\<close> differs
  from that of the skip tensor, \<open>u\<close> is padded with \<open>diff div 2\<close> zeros before and
  \<open>diff - diff div 2\<close> zeros after on each of the two axes (\<open>div\<close> rounds down, as
  \<^verbatim>\<open>//\<close> does; a negative amount removes entries instead). The padded tensor \<open>p\<close> has
  the height and width of the skip tensor; it holds \<open>u\<close> at offset
  \<open>(diff_y div 2, diff_x div 2)\<close> and zeros elsewhere. Then the skip tensor and \<open>p\<close> are
  concatenated along the channel axis, the skip channels first, and the DoubleConv of
  the block is applied to the result.
\<close>

theorem DecoderBlock_pads_then_concatenates:
  fixes m :: "'a::{zero,linorder} DecoderBlock"
  assumes up: "ConvTranspose2d_forward (up m) x = Inr u"
    and u: "shape u = [n, cu, hu, wu]"
    and s: "shape skip = [n, cs, hs, ws]"
    and d: "(hu, wu) \<noteq> (hs, ws)"
    and dy: "diff_y = int hs - int hu" and dx: "diff_x = int ws - int wu"
  shows "\<exists>p c.
     F_pad u (diff_x div 2) (diff_x - diff_x div 2) (diff_y div 2) (diff_y - diff_y div 2) = Inr p \<and>
     shape p = [n, cu, hs, ws] \<and>
     (\<forall>i j y xx. elem p [i, j, y, xx] =
        (if diff_y div 2 \<le> int y \<and> int y < diff_y div 2 + int hu \<and>
            diff_x div 2 \<le> int xx \<and> int xx < diff_x div 2 + int wu
         then elem u [i, j, nat (int y - diff_y div 2), nat (int xx - diff_x div 2)]
         else 0)) \<and>
     torch_cat skip p = Inr c \<and>
     shape c = [n, cs + cu, hs, ws] \<and>
     (\<forall>i j y xx. elem c [i, j, y, xx] =
        (if j < cs then elem skip [i, j, y, xx] else elem p [i, j - cs, y, xx])) \<and>
     DecoderBlock_forward m x skip = DoubleConv_forward (dec_double_conv m) c"
proof -
  obtain p where p:
    "F_pad u (diff_x div 2) (diff_x - diff_x div 2) (diff_y div 2) (diff_y - diff_y div 2) = Inr p"
    "shape p = [n, cu, hs, ws]"
    and pe: "\<forall>i j y xx. elem p [i, j, y, xx] =
        (if 0 \<le> int y - diff_y div 2 \<and> int y - diff_y div 2 < int hu \<and>
            0 \<le> int xx - diff_x div 2 \<and> int xx - diff_x div 2 < int wu
         then elem u [i, j, nat (int y - diff_y div 2), nat (int xx - diff_x div 2)]
         else 0)"
    using F_pad_to_size [OF u, of ws hs] unfolding dy dx by blast
  have pe': "\<forall>i j y xx. elem p [i, j, y, xx] =
        (if diff_y div 2 \<le> int y \<and> int y < diff_y div 2 + int hu \<and>
            diff_x div 2 \<le> int xx \<and> int xx < diff_x div 2 + int wu
         then elem u [i, j, nat (int y - diff_y div 2), nat (int xx - diff_x div 2)]
         else 0)"
  proof (intro allI)
    fix i j y xx
    have "(0 \<le> int y - diff_y div 2 \<and> int y - diff_y div 2 < int hu \<and>
            0 \<le> int xx - diff_x div 2 \<and> int xx - diff_x div 2 < int wu) =
          (diff_y div 2 \<le> int y \<and> int y < diff_y div 2 + int hu \<and>
            diff_x div 2 \<le> int xx \<and> int xx < diff_x div 2 + int wu)"
      by auto
    with pe show "elem p [i, j, y, xx] =
        (if diff_y div 2 \<le> int y \<and> int y < diff_y div 2 + int hu \<and>
            diff_x div 2 \<le> int xx \<and> int xx < diff_x div 2 + int wu
         then elem u [i, j, nat (int y - diff_y div 2), nat (int xx - diff_x div 2)]
         else 0)"
      by simp
  qed
  obtain c where c: "torch_cat skip p = Inr c" "shape c = [n, cs + cu, hs, ws]"
    and ce: "\<forall>i j y xx. elem c [i, j, y, xx] =
        (if j < cs then elem skip [i, j, y, xx] else elem p [i, j - cs, y, xx])"
    using torch_cat_4 [OF s p(2)] by blast
  have "DecoderBlock_forward m x skip = DoubleConv_forward (dec_double_conv m) c"
    using DecoderBlock_forward_differ [OF up u s d] p(1) c(1)
    by (simp add: dy dx and_then_Inr)
  with p pe' c ce show ?thesis by blast
qed


theorem DecoderBlock_pads_then_concatenates_witness:
  "\<exists>p c.
     F_pad \<lparr>shape = [1, 1, 2, 2], elem = (\<lambda>idx. 7 :: int)\<rparr> 0 1 0 1 = Inr p \<and>
     shape p = [1, 1, 3, 3] \<and>
     elem p [0, 0, 0, 0] = 7 \<and> elem p [0, 0, 1, 1] = 7 \<and>
     elem p [0, 0, 2, 1] = 0 \<and> elem p [0, 0, 1, 2] = 0 \<and>
     torch_cat \<lparr>shape = [1, 1, 3, 3], elem = (\<lambda>idx. 5)\<rparr> p = Inr c \<and>
     shape c = [1, 2, 3, 3] \<and>
     elem c [0, 0, 2, 2] = 5 \<and> elem c [0, 1, 1, 1] = 7 \<and> elem c [0, 1, 2, 2] = 0 \<and>
     DecoderBlock_forward
       (DecoderBlock_init \<lparr>conv_w = (\<lambda>name t idx. 7), bn_w = (\<lambda>name j v. v)\<rparr> ''up1'' 2 1)
       \<lparr>shape = [1, 2, 1, 1], elem = (\<lambda>idx. 1)\<rparr>
       \<lparr>shape = [1, 1, 3, 3], elem = (\<lambda>idx. 5)\<rparr> =
     DoubleConv_forward
       (dec_double_conv
         (DecoderBlock_init \<lparr>conv_w = (\<lambda>name t idx. 7), bn_w = (\<lambda>name j v. v)\<rparr> ''up1'' 2 1)) c"
proof -
  let ?m = "DecoderBlock_init \<lparr>conv_w = (\<lambda>name t idx. 7 :: int), bn_w = (\<lambda>name j v. v)\<rparr> ''up1'' 2 1"
  let ?x = "\<lparr>shape = [1, 2, 1, 1], elem = (\<lambda>idx. 1 :: int)\<rparr>"
  let ?u = "\<lparr>shape = [1, 1, 2, 2], elem = (\<lambda>idx. 7 :: int)\<rparr>"
  let ?skip = "\<lparr>shape = [1, 1, 3, 3], elem = (\<lambda>idx. 5 :: int)\<rparr>"
  have up: "ConvTranspose2d_forward (up ?m) ?x = Inr ?u"
    by (simp add: ConvTranspose2d_forward_def DecoderBlock_init_def)
  have u: "shape ?u = [1, 1, 2, 2]" by simp
  have s: "shape ?skip = [1, 1, 3, 3]" by simp
  have d: "(2 :: nat, 2 :: nat) \<noteq> (3, 3)" by simp
  have dd: "(1 :: int) = int 3 - int 2" by simp
  from DecoderBlock_pads_then_concatenates [OF up u s d dd dd]
  obtain p c where
    "F_pad ?u (1 div 2) (1 - 1 div 2) (1 div 2) (1 - 1 div 2) = Inr p"
    "shape p = [1, 1, 3, 3]"
    "\<forall>i j y xx. elem p [i, j, y, xx] =
        (if 1 div 2 \<le> int y \<and> int y < 1 div 2 + int 2 \<and>
            1 div 2 \<le> int xx \<and> int xx < 1 div 2 + int 2
         then elem ?u [i, j, nat (int y - 1 div 2), nat (int xx - 1 div 2)]
         else 0)"
    "torch_cat ?skip p = Inr c"
    "shape c = [1, 1 + 1, 3, 3]"
    "\<forall>i j y xx. elem c [i, j, y, xx] =
        (if j < 1 then elem ?skip [i, j, y, xx] else elem p [i, j - 1, y, xx])"
    "DecoderBlock_forward ?m ?x ?skip = DoubleConv_forward (dec_double_conv ?m) c"
    by blast
  then show ?thesis by (intro exI [of _ p] exI [of _ c]) simp
qed

subsection \<open>The preprocessing pipeline\<close>

text \<open>
  C3. For every image with a positive width and height, of any size, the preprocessing
  applies in this order: the resize to \<open>(IMG_SIZE, IMG_SIZE)\<close> with the bilinear filter
  (\<open>IMG_SIZE\<close> is 128; an image that already has this size is kept as it is, any other
  one is resampled), the conversion of the red, green and blue byte of every pixel to
  the values \<open>byte / 255\<close> of channels 0, 1 and 2, all in \<open>[0, 1]\<close>, and the normalisation
  \<open>(v - mean c) / std c\<close> per channel \<open>c\<close>, with the means \<open>0.485, 0.456, 0.406\<close> and the
  standard deviations \<open>0.229, 0.224, 0.225\<close>. It does not raise, and its result has shape
  \<open>[3, IMG_SIZE, IMG_SIZE]\<close>.
\<close>

theorem preprocess_steps_and_shape:
  assumes "0 < fst (im_size img)" and "0 < snd (im_size img)"
  shows
    "IMG_SIZE = 128 \<and>
     preprocess rs img =
       T_Normalize IMG_MEAN IMG_STD (T_ToTensor (T_Resize rs (IMG_SIZE, IMG_SIZE) img)) \<and>
     T_Resize rs (IMG_SIZE, IMG_SIZE) img =
       Image_resize rs img (IMG_SIZE, IMG_SIZE) BILINEAR \<and>
     im_size (Image_resize rs img (IMG_SIZE, IMG_SIZE) BILINEAR) = (IMG_SIZE, IMG_SIZE) \<and>
     (im_size img \<noteq> (IMG_SIZE, IMG_SIZE) \<longrightarrow>
        getpixel (Image_resize rs img (IMG_SIZE, IMG_SIZE) BILINEAR) =
          rs BILINEAR img (IMG_SIZE, IMG_SIZE)) \<and>
     (im_size img = (IMG_SIZE, IMG_SIZE) \<longrightarrow>
        Image_resize rs img (IMG_SIZE, IMG_SIZE) BILINEAR = img) \<and>
     shape (T_ToTensor (Image_resize rs img (IMG_SIZE, IMG_SIZE) BILINEAR)) =
       [3, IMG_SIZE, IMG_SIZE] \<and>
     (\<forall>x y r g b.
        getpixel (Image_resize rs img (IMG_SIZE, IMG_SIZE) BILINEAR) (x, y) = (r, g, b) \<longrightarrow>
        elem (T_ToTensor (Image_resize rs img (IMG_SIZE, IMG_SIZE) BILINEAR)) [0, y, x] =
          real (unat r) / 255 \<and>
        elem (T_ToTensor (Image_resize rs img (IMG_SIZE, IMG_SIZE) BILINEAR)) [1, y, x] =
          real (unat g) / 255 \<and>
        elem (T_ToTensor (Image_resize rs img (IMG_SIZE, IMG_SIZE) BILINEAR)) [2, y, x] =
          real (unat b) / 255) \<and>
     (\<forall>c y x.
        0 \<le> elem (T_ToTensor (Image_resize rs img (IMG_SIZE, IMG_SIZE) BILINEAR)) [c, y, x] \<and>
        elem (T_ToTensor (Image_resize rs img (IMG_SIZE, IMG_SIZE) BILINEAR)) [c, y, x] \<le> 1) \<and>
     (\<exists>t. preprocess rs img = Inr t \<and>
        shape t = [3, IMG_SIZE, IMG_SIZE] \<and>
        (\<forall>c < 3. \<forall>y x. elem t [c, y, x] =
           (elem (T_ToTensor (Image_resize rs img (IMG_SIZE, IMG_SIZE) BILINEAR)) [c, y, x]
              - IMG_MEAN ! c) / IMG_STD ! c) \<and>
        (\<forall>x y r g b.
           getpixel (Image_resize rs img (IMG_SIZE, IMG_SIZE) BILINEAR) (x, y) = (r, g, b) \<longrightarrow>
           elem t [0, y, x] = (real (unat r) / 255 - 485 / 1000) / (229 / 1000) \<and>
           elem t [1, y, x] = (real (unat g) / 255 - 456 / 1000) / (224 / 1000) \<and>
           elem t [2, y, x] = (real (unat b) / 255 - 406 / 1000) / (225 / 1000)))"
proof -
  let ?r = "Image_resize rs img (IMG_SIZE, IMG_SIZE) BILINEAR"
  have tt: "elem (T_ToTensor ?r) [0, y, x] = real (unat r) / 255 \<and>
      elem (T_ToTensor ?r) [1, y, x] = real (unat g) / 255 \<and>
      elem (T_ToTensor ?r) [2, y, x] = real (unat b) / 255"
    if "getpixel ?r (x, y) = (r, g, b)" for x y r g b
    using that by (simp only: elem_T_ToTensor) (simp add: channel_def)
  have "IMG_SIZE = 128" by (simp add: IMG_SIZE_def)
  moreover have "preprocess rs img =
      T_Normalize IMG_MEAN IMG_STD (T_ToTensor (T_Resize rs (IMG_SIZE, IMG_SIZE) img))"
    by (simp add: preprocess_def)
  moreover have "T_Resize rs (IMG_SIZE, IMG_SIZE) img = ?r"
    by (simp add: T_Resize_def)
  moreover have "im_size ?r = (IMG_SIZE, IMG_SIZE)" by (rule im_size_Image_resize)
  moreover have "im_size img \<noteq> (IMG_SIZE, IMG_SIZE) \<longrightarrow>
      getpixel ?r = rs BILINEAR img (IMG_SIZE, IMG_SIZE)"
    by (simp add: Image_resize_def)
  moreover have "im_size img = (IMG_SIZE, IMG_SIZE) \<longrightarrow> ?r = img"
    by (simp add: Image_resize_def)
  moreover have "shape (T_ToTensor ?r) = [3, IMG_SIZE, IMG_SIZE]"
    by (simp add: shape_T_ToTensor im_size_Image_resize)
  moreover have "\<forall>x y r g b. getpixel ?r (x, y) = (r, g, b) \<longrightarrow>
      elem (T_ToTensor ?r) [0, y, x] = real (unat r) / 255 \<and>
      elem (T_ToTensor ?r) [1, y, x] = real (unat g) / 255 \<and>
      elem (T_ToTensor ?r) [2, y, x] = real (unat b) / 255"
    using tt by blast
  moreover have "\<forall>c y x.
      0 \<le> elem (T_ToTensor ?r) [c, y, x] \<and> elem (T_ToTensor ?r) [c, y, x] \<le> 1"
    using byte_unit_interval by (simp only: elem_T_ToTensor) simp
  moreover have "\<exists>t. preprocess rs img = Inr t \<and>
        shape t = [3, IMG_SIZE, IMG_SIZE] \<and>
        (\<forall>c < 3. \<forall>y x. elem t [c, y, x] =
           (elem (T_ToTensor ?r) [c, y, x] - IMG_MEAN ! c) / IMG_STD ! c) \<and>
        (\<forall>x y r g b. getpixel ?r (x, y) = (r, g, b) \<longrightarrow>
           elem t [0, y, x] = (real (unat r) / 255 - 485 / 1000) / (229 / 1000) \<and>
           elem t [1, y, x] = (real (unat g) / 255 - 456 / 1000) / (224 / 1000) \<and>
           elem t [2, y, x] = (real (unat b) / 255 - 406 / 1000) / (225 / 1000))"
  proof -
    obtain t :: "real tensor" where t: "preprocess rs img = Inr t"
        "shape t = [3, IMG_SIZE, IMG_SIZE]"
      and te: "\<forall>c y x. elem t [c, y, x] =
          (real (unat (channel (getpixel ?r (x, y)) c)) / 255 - IMG_MEAN ! c) / IMG_STD ! c"
      using preprocess_ok [of rs img] by blast
    from te have rel: "\<forall>c < 3. \<forall>y x. elem t [c, y, x] =
        (elem (T_ToTensor ?r) [c, y, x] - IMG_MEAN ! c) / IMG_STD ! c"
      by (simp only: elem_T_ToTensor) blast
    have px: "elem t [0, y, x] = (real (unat r) / 255 - 485 / 1000) / (229 / 1000) \<and>
        elem t [1, y, x] = (real (unat g) / 255 - 456 / 1000) / (224 / 1000) \<and>
        elem t [2, y, x] = (real (unat b) / 255 - 406 / 1000) / (225 / 1000)"
      if "getpixel ?r (x, y) = (r, g, b)" for x y r g b
    proof -
      have c: "channel (getpixel ?r (x, y)) 0 = r" "channel (getpixel ?r (x, y)) 1 = g"
        "channel (getpixel ?r (x, y)) 2 = b"
        using that by (simp_all add: channel_def)
      from te have
        "elem t [0, y, x] =
           (real (unat (channel (getpixel ?r (x, y)) 0)) / 255 - IMG_MEAN ! 0) / IMG_STD ! 0"
        "elem t [1, y, x] =
           (real (unat (channel (getpixel ?r (x, y)) 1)) / 255 - IMG_MEAN ! 1) / IMG_STD ! 1"
        "elem t [2, y, x] =
           (real (unat (channel (getpixel ?r (x, y)) 2)) / 255 - IMG_MEAN ! 2) / IMG_STD ! 2"
        by blast+
      then show ?thesis
        unfolding c by (simp add: IMG_MEAN_def IMG_STD_def)
    qed
    from t rel px show ?thesis by blast
  qed
  ultimately show ?thesis by (intro conjI)
qed

theorem preprocess_steps_and_shape_witness:
  "\<exists>t. preprocess (\<lambda>f im sz pos. getpixel im (0, 0)) (Image_new (640, 480) (10, 20, 30)) = Inr t \<and>
     shape t = [3, 128, 128] \<and>
     elem t [0, 5, 7] = (10 / 255 - 485 / 1000) / (229 / 1000) \<and>
     elem t [1, 5, 7] = (20 / 255 - 456 / 1000) / (224 / 1000) \<and>
     elem t [2, 5, 7] = (30 / 255 - 406 / 1000) / (225 / 1000)"
proof -
  let ?img = "Image_new (640, 480) (10, 20, 30) :: rgb image"
  let ?rs = "(\<lambda>f im sz pos. getpixel im (0, 0)) :: rgb resampler"
  have w: "0 < fst (im_size ?img)" and h: "0 < snd (im_size ?img)"
    by (simp_all add: Image_new_def)
  have src: "getpixel (Image_resize ?rs ?img (IMG_SIZE, IMG_SIZE) BILINEAR) (7, 5) = (10, 20, 30)"
    by (simp add: Image_resize_def Image_new_def IMG_SIZE_def)
  from preprocess_steps_and_shape [OF w h, of ?rs]
  obtain t :: "real tensor" where t: "preprocess ?rs ?img = Inr t"
      "shape t = [3, IMG_SIZE, IMG_SIZE]"
    and px: "\<forall>x y r g b.
        getpixel (Image_resize ?rs ?img (IMG_SIZE, IMG_SIZE) BILINEAR) (x, y) = (r, g, b) \<longrightarrow>
        elem t [0, y, x] = (real (unat r) / 255 - 485 / 1000) / (229 / 1000) \<and>
        elem t [1, y, x] = (real (unat g) / 255 - 456 / 1000) / (224 / 1000) \<and>
        elem t [2, y, x] = (real (unat b) / 255 - 406 / 1000) / (225 / 1000)"
    by blast
  from px src have
    "elem t [0, 5, 7] = (real (unat (10 :: byte)) / 255 - 485 / 1000) / (229 / 1000) \<and>
     elem t [1, 5, 7] = (real (unat (20 :: byte)) / 255 - 456 / 1000) / (224 / 1000) \<and>
     elem t [2, 5, 7] = (real (unat (30 :: byte)) / 255 - 406 / 1000) / (225 / 1000)"
    by blast
  with t show ?thesis
    by (intro exI [of _ t]) (simp add: IMG_SIZE_def)
qed

text \<open>
  C6. A 256 by 256 image whose pixels are all \<open>(128, 128, 128)\<close>, preprocessed with the
  program's constants (side 128, mean \<open>[0.485, 0.456, 0.406]\<close>, standard deviation
  \<open>[0.229, 0.224, 0.225]\<close>), gives a tensor whose every value in channel \<open>c\<close> is
  \<open>(128 / 255 - mean c) / std c\<close>, given that the bilinear resampling of a non-empty
  uniform image yields the same uniform value.
\<close>

theorem preprocess_uniform_gray:
  assumes size: "im_size img = (256, 256)"
    and gray: "\<forall>x < 256. \<forall>y < 256. getpixel img (x, y) = (128, 128, 128)"
    and uniform: "\<And>(im :: rgb image) sz p x y.
       0 < fst (im_size im) \<Longrightarrow> 0 < snd (im_size im) \<Longrightarrow>
       (\<forall>x' < fst (im_size im). \<forall>y' < snd (im_size im). getpixel im (x', y') = p) \<Longrightarrow>
       x < fst sz \<Longrightarrow> y < snd sz \<Longrightarrow> rs BILINEAR im sz (x, y) = p"
  shows
    "IMG_SIZE = 128 \<and>
     IMG_MEAN = [485 / 1000, 456 / 1000, 406 / 1000] \<and>
     IMG_STD = [229 / 1000, 224 / 1000, 225 / 1000] \<and>
     (\<exists>t. preprocess rs img = Inr t \<and>
        shape t = [3, 128, 128] \<and>
        (\<forall>c < 3. \<forall>y < 128. \<forall>x < 128.
           elem t [c, y, x] = (128 / 255 - IMG_MEAN ! c) / IMG_STD ! c))"
proof -
  let ?r = "Image_resize rs img (IMG_SIZE, IMG_SIZE) BILINEAR"
  obtain t where t: "preprocess rs img = Inr t" "shape t = [3, IMG_SIZE, IMG_SIZE]"
    and te: "\<forall>c y x. elem t [c, y, x] =
        (real (unat (channel (getpixel ?r (x, y)) c)) / 255 - IMG_MEAN ! c) / IMG_STD ! c"
    using preprocess_ok [of rs img] by blast
  have px: "getpixel ?r (x, y) = (128, 128, 128)" if "x < 128" "y < 128" for x y
  proof -
    have "rs BILINEAR img (128, 128) (x, y) = (128, 128, 128)"
      by (rule uniform) (use size gray that in simp_all)
    then show ?thesis by (simp add: Image_resize_def IMG_SIZE_def size)
  qed
  have "\<forall>c < 3. \<forall>y < 128. \<forall>x < 128.
      elem t [c, y, x] = (128 / 255 - IMG_MEAN ! c) / IMG_STD ! c"
  proof (intro allI impI)
    fix c y x :: nat
    assume "c < 3" "y < 128" "x < 128"
    then have ch: "channel (getpixel ?r (x, y)) c = 128"
      by (simp add: px channel_def)
    from te have "elem t [c, y, x] =
        (real (unat (channel (getpixel ?r (x, y)) c)) / 255 - IMG_MEAN ! c) / IMG_STD ! c"
      by blast
    then show "elem t [c, y, x] = (128 / 255 - IMG_MEAN ! c) / IMG_STD ! c"
      unfolding ch by simp
  qed
  with t show ?thesis by (simp add: IMG_SIZE_def IMG_MEAN_def IMG_STD_def)
qed

theorem preprocess_uniform_gray_witness:
  "\<exists>t. preprocess (\<lambda>f im sz pos. getpixel im (0, 0)) (Image_new (256, 256) (128, 128, 128)) = Inr t \<and>
     elem t [0, 5, 7] = (128 / 255 - 485 / 1000) / (229 / 1000) \<and>
     elem t [1, 0, 127] = (128 / 255 - 456 / 1000) / (224 / 1000) \<and>
     elem t [2, 127, 0] = (128 / 255 - 406 / 1000) / (225 / 1000)"
proof -
  let ?img = "Image_new (256, 256) (128, 128, 128) :: rgb image"
  let ?rs = "(\<lambda>f im sz pos. getpixel im (0, 0)) :: rgb resampler"
  have size: "im_size ?img = (256, 256)" by (simp add: Image_new_def)
  have gray: "\<forall>x < 256. \<forall>y < 256. getpixel ?img (x, y) = (128, 128, 128)"
    by (simp add: Image_new_def)
  have "IMG_SIZE = 128 \<and>
     IMG_MEAN = [485 / 1000, 456 / 1000, 406 / 1000] \<and>
     IMG_STD = [229 / 1000, 224 / 1000, 225 / 1000] \<and>
     (\<exists>t. preprocess ?rs ?img = Inr t \<and>
        shape t = [3, 128, 128] \<and>
        (\<forall>c < 3. \<forall>y < 128. \<forall>x < 128.
           elem t [c, y, x] = (128 / 255 - IMG_MEAN ! c) / IMG_STD ! c))"
  proof (rule preprocess_uniform_gray [OF size gray])
    fix im :: "rgb image" and sz :: "nat \<times> nat" and p :: rgb and x y :: nat
    assume "0 < fst (im_size im)" "0 < snd (im_size im)"
      "\<forall>x' < fst (im_size im). \<forall>y' < snd (im_size im). getpixel im (x', y') = p"
    then show "?rs BILINEAR im sz (x, y) = p" by simp
  qed
  then obtain t where "preprocess ?rs ?img = Inr t"
    "\<forall>c < 3. \<forall>y < 128. \<forall>x < 128. elem t [c, y, x] = (128 / 255 - IMG_MEAN ! c) / IMG_STD ! c"
    by blast
  then show ?thesis
    by (intro exI [of _ t]) (simp add: IMG_MEAN_def IMG_STD_def)
qed

subsection \<open>Rendering: the mask image and the overlay\<close>

lemma astype_uint8_mask: "astype_uint8 (0 * 255) = 0" "astype_uint8 (1 * 255) = 255"
  by (simp_all add: astype_uint8_def)

lemma alpha_of_mask: "alpha_of 0 = 0" "alpha_of 255 = 120"
  by (simp_all add: alpha_of_def)

lemma mask_to_image_2d:
  assumes "shape pmask = [h, w]"
  shows "\<exists>mi. mask_to_image pmask = Inr mi \<and> im_size mi = (w, h) \<and>
     (\<forall>x y. getpixel mi (x, y) = astype_uint8 (elem pmask [y, x] * 255))"
  using assms by (simp add: mask_to_image_def fromarray_L_def tensor_map_def)

lemma blend_overlay_0:
  assumes "d < 256"
  shows "SHIFTFORDIV255 (d * 17280 + 128 * 128) div 128 = alpha_blend 120 0 d"
  using assms unfolding SHIFTFORDIV255_def alpha_blend_def by simp

lemma blend_overlay_255:
  assumes "d < 256"
  shows "SHIFTFORDIV255 (255 * 15360 + d * 17280 + 128 * 128) div 128 = alpha_blend 120 255 d"
  using assms unfolding SHIFTFORDIV255_def alpha_blend_def by simp

lemma alpha_blend_byte:
  assumes "ov \<le> 255" "d < 256"
  shows "alpha_blend 120 ov d < 256"
proof -
  have "120 * ov + 135 * d + 127 \<le> 120 * 255 + 135 * 255 + 127" using assms by simp
  then have "(120 * ov + 135 * d + 127) div 255 \<le> (120 * 255 + 135 * 255 + 127) div 255"
    by (rule div_le_mono)
  then show ?thesis by (simp add: alpha_blend_def)
qed

lemma unat_byte_less: "unat (v :: byte) < 256"
  using unsigned_less [of v, where ?'a = nat] by simp

lemma composite_pixel_transparent:
  "composite_pixel (r, g, b, 255) (255, 0, 0, 0) = (r, g, b, 255)"
  by (simp add: composite_pixel_def)

lemma composite_pixel_red_120:
  "\<exists>R G B. composite_pixel (r, g, b, 255) (255, 0, 0, 120) = (R, G, B, 255) \<and>
     unat R = alpha_blend 120 255 (unat r) \<and>
     unat G = alpha_blend 120 0 (unat g) \<and>
     unat B = alpha_blend 120 0 (unat b)"
proof -
  have c1: "(120 :: nat) * 255 * 255 * 128 div (120 * 255 + 255 * (255 - 120)) = 15360"
    by simp
  have a: "(of_nat (SHIFTFORDIV255 (120 * 255 + 255 * (255 - 120) + 128)) :: byte) = 255"
    by (simp add: SHIFTFORDIV255_def)
  have r: "unat (of_nat (alpha_blend 120 255 (unat r)) :: byte) = alpha_blend 120 255 (unat r)"
    using alpha_blend_byte [of 255 "unat r"] unat_byte_less [of r]
    by (simp add: unat_of_nat)
  have g: "unat (of_nat (alpha_blend 120 0 (unat g)) :: byte) = alpha_blend 120 0 (unat g)"
    using alpha_blend_byte [of 0 "unat g"] unat_byte_less [of g]
    by (simp add: unat_of_nat)
  have b: "unat (of_nat (alpha_blend 120 0 (unat b)) :: byte) = alpha_blend 120 0 (unat b)"
    using alpha_blend_byte [of 0 "unat b"] unat_byte_less [of b]
    by (simp add: unat_of_nat)
  have "composite_pixel (r, g, b, 255) (255, 0, 0, 120) =
      (of_nat (alpha_blend 120 255 (unat r)), of_nat (alpha_blend 120 0 (unat g)),
       of_nat (alpha_blend 120 0 (unat b)), 255)"
    unfolding composite_pixel_def
    using blend_overlay_255 [OF unat_byte_less [of r]] blend_overlay_0 [OF unat_byte_less [of g]]
      blend_overlay_0 [OF unat_byte_less [of b]] a
    by (simp add: Let_def c1)
  with r g b show ?thesis by blast
qed

lemma png_bodies_loaded:
  assumes dec: "decode (contents file) = Inr img"
  shows "\<exists>pm mi overlay combined.
     predict_mask_from_image rs (loaded_model sd)
       (Image_resize rs img (IMG_SIZE, IMG_SIZE) BILINEAR) = Inr pm \<and>
     shape pm = [128, 128] \<and>
     (\<forall>y x. elem pm [y, x] = 0 \<or> elem pm [y, x] = 1) \<and>
     mask_to_image pm = Inr mi \<and>
     im_size mi = (128, 128) \<and>
     (\<forall>x y. getpixel mi (x, y) = (if elem pm [y, x] = 1 then 255 else 0)) \<and>
     mask_png_body decode rs (loaded_model sd) file = Inr (Png_L mi) \<and>
     putalpha (Image_new (im_size (Image_resize rs img (IMG_SIZE, IMG_SIZE) BILINEAR))
                 (255, 0, 0, 0)) (Image_point mi alpha_of) = Inr overlay \<and>
     (\<forall>pos. getpixel overlay pos = (255, 0, 0, alpha_of (getpixel mi pos))) \<and>
     alpha_composite (convert_RGBA (Image_resize rs img (IMG_SIZE, IMG_SIZE) BILINEAR)) overlay =
       Inr combined \<and>
     im_size combined = (128, 128) \<and>
     (\<forall>pos. getpixel combined pos =
        composite_pixel
          (getpixel (convert_RGBA (Image_resize rs img (IMG_SIZE, IMG_SIZE) BILINEAR)) pos)
          (getpixel overlay pos)) \<and>
     overlay_png_body decode rs (loaded_model sd) file = Inr (Png_RGBA combined)"
proof -
  let ?r = "Image_resize rs img (IMG_SIZE, IMG_SIZE) BILINEAR"
  have rsz: "im_size ?r = (128, 128)"
    by (simp add: im_size_Image_resize IMG_SIZE_def)
  obtain outputs :: "real tensor" and pm where pm: "predict_mask_from_image rs (loaded_model sd) ?r = Inr pm"
      "shape pm = [128, 128]"
    and pe: "\<forall>y x. elem pm [y, x] = (if sigmoid (elem outputs [0, 0, y, x]) > 1 / 2 then 1 else 0)"
    using predict_mask_from_image_ok [of rs ?r sd] by blast
  from pe have p01: "\<forall>y x. elem pm [y, x] = 0 \<or> elem pm [y, x] = 1" by simp
  obtain mi where mi: "mask_to_image pm = Inr mi" "im_size mi = (128, 128)"
    and me: "\<forall>x y. getpixel mi (x, y) = astype_uint8 (elem pm [y, x] * 255)"
    using mask_to_image_2d [OF pm(2)] by blast
  have me': "\<forall>x y. getpixel mi (x, y) = (if elem pm [y, x] = 1 then 255 else 0)"
  proof (intro allI)
    fix x y
    from p01 have "elem pm [y, x] = 0 \<or> elem pm [y, x] = 1" by blast
    then show "getpixel mi (x, y) = (if elem pm [y, x] = 1 then 255 else 0)"
      using astype_uint8_mask by (auto simp: me)
  qed
  have mb: "mask_png_body decode rs (loaded_model sd) file = Inr (Png_L mi)"
    by (simp add: mask_png_body_def dec and_then_Inr pm mi)
  obtain overlay where ov: "putalpha (Image_new (im_size ?r) (255, 0, 0, 0))
        (Image_point mi alpha_of) = Inr overlay"
      "im_size overlay = (128, 128)"
    and oe: "\<forall>pos. getpixel overlay pos = (255, 0, 0, alpha_of (getpixel mi pos))"
    by (simp add: putalpha_def Image_new_def Image_point_def rsz mi)
  obtain combined where cb: "alpha_composite (convert_RGBA ?r) overlay = Inr combined"
      "im_size combined = (128, 128)"
    and ce: "\<forall>pos. getpixel combined pos =
        composite_pixel (getpixel (convert_RGBA ?r) pos) (getpixel overlay pos)"
    by (simp add: alpha_composite_def convert_RGBA_def rsz ov)
  have ob: "overlay_png_body decode rs (loaded_model sd) file = Inr (Png_RGBA combined)"
    by (simp add: overlay_png_body_def dec and_then_Inr pm mi ov cb)
  from pm p01 mi me' mb ov(1) oe cb ce ob show ?thesis by blast
qed

text \<open>
  C7. The overlay endpoint, on an upload with an image content type that decodes to an
  image, answers with a 4-channel image of the resized size, 128 by 128. At every
  position the mask is 0 or 1. Where it is 0, the pixel is the pixel of the resized
  source image (with full alpha). Where it is 1, each colour channel is the
  \<open>alpha_blend\<close> at alpha 120 (of 255) of the source value with the overlay colour red,
  \<open>(255, 0, 0)\<close>, and alpha is 255.
\<close>

theorem overlay_pixels:
  assumes ct: "content_type file = Some ct" and im: "prefix ''image/'' ct"
    and dec: "decode (contents file) = Inr img"
    and valid: "0 < fst (im_size img)" "0 < snd (im_size img)"
  shows "\<exists>pm combined.
     predict_mask_from_image rs (loaded_model sd)
       (Image_resize rs img (IMG_SIZE, IMG_SIZE) BILINEAR) = Inr pm \<and>
     fst (predict_overlay_png decode rs (loaded_model sd) file) = Inr (Png_RGBA combined) \<and>
     im_size (Image_resize rs img (IMG_SIZE, IMG_SIZE) BILINEAR) = (128, 128) \<and>
     im_size combined = (128, 128) \<and>
     (\<forall>x < 128. \<forall>y < 128. \<forall>r g b.
        getpixel (Image_resize rs img (IMG_SIZE, IMG_SIZE) BILINEAR) (x, y) = (r, g, b) \<longrightarrow>
        (elem pm [y, x] = 0 \<or> elem pm [y, x] = 1) \<and>
        (elem pm [y, x] = 0 \<longrightarrow> getpixel combined (x, y) = (r, g, b, 255)) \<and>
        (elem pm [y, x] = 1 \<longrightarrow>
           (\<exists>R G B. getpixel combined (x, y) = (R, G, B, 255) \<and>
              unat R = alpha_blend 120 255 (unat r) \<and>
              unat G = alpha_blend 120 0 (unat g) \<and>
              unat B = alpha_blend 120 0 (unat b))))"
proof -
  let ?r = "Image_resize rs img (IMG_SIZE, IMG_SIZE) BILINEAR"
  obtain pm :: "real tensor" and mi :: "byte image"
    and overlay :: "rgba image" and combined :: "rgba image" where
    pm: "predict_mask_from_image rs (loaded_model sd) ?r = Inr pm"
    and p01: "\<forall>y x. elem pm [y, x] = 0 \<or> elem pm [y, x] = 1"
    and me: "\<forall>x y. getpixel mi (x, y) = (if elem pm [y, x] = 1 then 255 else 0)"
    and oe: "\<forall>pos. getpixel overlay pos = (255, 0, 0, alpha_of (getpixel mi pos))"
    and cs: "im_size combined = (128, 128)"
    and ce: "\<forall>pos. getpixel combined pos =
        composite_pixel (getpixel (convert_RGBA ?r) pos) (getpixel overlay pos)"
    and ob: "overlay_png_body decode rs (loaded_model sd) file = Inr (Png_RGBA combined)"
    using png_bodies_loaded [of decode "file" img rs sd, OF dec] by blast
  have ep: "fst (predict_overlay_png decode rs (loaded_model sd) file) = Inr (Png_RGBA combined)"
    by (simp add: predict_overlay_png_def content_type_check_def ct im and_then_Inr
        prediction_failed_def ob)
  have rsz: "im_size ?r = (128, 128)"
    by (simp add: im_size_Image_resize IMG_SIZE_def)
  have px: "(elem pm [y, x] = 0 \<or> elem pm [y, x] = 1) \<and>
        (elem pm [y, x] = 0 \<longrightarrow> getpixel combined (x, y) = (r, g, b, 255)) \<and>
        (elem pm [y, x] = 1 \<longrightarrow>
           (\<exists>R G B. getpixel combined (x, y) = (R, G, B, 255) \<and>
              unat R = alpha_blend 120 255 (unat r) \<and>
              unat G = alpha_blend 120 0 (unat g) \<and>
              unat B = alpha_blend 120 0 (unat b)))"
    if src: "getpixel ?r (x, y) = (r, g, b)" for x y r g b
  proof -
    have dst: "getpixel (convert_RGBA ?r) (x, y) = (r, g, b, 255)"
      by (simp add: convert_RGBA_def src)
    have bg: "getpixel combined (x, y) = (r, g, b, 255)" if "elem pm [y, x] = 0"
      using that ce oe me dst by (simp add: alpha_of_mask composite_pixel_transparent)
    have fg: "getpixel combined (x, y) = composite_pixel (r, g, b, 255) (255, 0, 0, 120)"
      if "elem pm [y, x] = 1"
      using that ce oe me dst by (simp add: alpha_of_mask)
    from p01 bg fg composite_pixel_red_120 [of r g b] show ?thesis by auto
  qed
  from pm ep rsz cs px show ?thesis by blast
qed


theorem overlay_pixels_witness:
  "\<exists>combined.
     fst (predict_overlay_png (\<lambda>bytes. Inr (Image_new (300, 200) (10, 20, 30)))
            (\<lambda>f im sz pos. getpixel im (0, 0))
            (loaded_model \<lparr>conv_w = (\<lambda>name t idx. 1), bn_w = (\<lambda>name j v. v)\<rparr>)
            \<lparr>content_type = Some ''image/png'', filename = Some ''scan.png'', contents = []\<rparr>) =
       Inr (Png_RGBA combined) \<and>
     im_size combined = (128, 128) \<and>
     (getpixel combined (3, 4) = (10, 20, 30, 255) \<or>
      (\<exists>R G B. getpixel combined (3, 4) = (R, G, B, 255) \<and>
         unat R = 125 \<and> unat G = 11 \<and> unat B = 16))"
proof -
  let ?img = "Image_new (300, 200) (10, 20, 30) :: rgb image"
  let ?decode = "(\<lambda>bytes. Inr ?img) :: decoder"
  let ?rs = "(\<lambda>f im sz pos. getpixel im (0, 0)) :: rgb resampler"
  let ?sd = "\<lparr>conv_w = (\<lambda>name t idx. 1 :: real), bn_w = (\<lambda>name j v. v)\<rparr>"
  let ?file = "\<lparr>content_type = Some ''image/png'', filename = Some ''scan.png'',
                contents = []\<rparr>"
  have ct: "content_type ?file = Some ''image/png''" by simp
  have im: "prefix ''image/'' ''image/png''" by simp
  have dec: "?decode (contents ?file) = Inr ?img" by simp
  have w: "0 < fst (im_size ?img)" and h: "0 < snd (im_size ?img)"
    by (simp_all add: Image_new_def)
  have src: "getpixel (Image_resize ?rs ?img (IMG_SIZE, IMG_SIZE) BILINEAR) (3, 4) = (10, 20, 30)"
    by (simp add: Image_resize_def Image_new_def IMG_SIZE_def)
  have bl: "alpha_blend 120 255 (unat (10 :: byte)) = 125"
    "alpha_blend 120 0 (unat (20 :: byte)) = 11"
    "alpha_blend 120 0 (unat (30 :: byte)) = 16"
    by (simp_all add: alpha_blend_def)
  from overlay_pixels [of ?file "''image/png''" ?decode ?img ?rs ?sd, OF ct im dec w h]
  obtain pm :: "real tensor" and combined :: "rgba image" where
    ep: "fst (predict_overlay_png ?decode ?rs (loaded_model ?sd) ?file) = Inr (Png_RGBA combined)"
    and cs: "im_size combined = (128, 128)"
    and px: "\<forall>x < 128. \<forall>y < 128. \<forall>r g b.
        getpixel (Image_resize ?rs ?img (IMG_SIZE, IMG_SIZE) BILINEAR) (x, y) = (r, g, b) \<longrightarrow>
        (elem pm [y, x] = 0 \<or> elem pm [y, x] = 1) \<and>
        (elem pm [y, x] = 0 \<longrightarrow> getpixel combined (x, y) = (r, g, b, 255)) \<and>
        (elem pm [y, x] = 1 \<longrightarrow>
           (\<exists>R G B. getpixel combined (x, y) = (R, G, B, 255) \<and>
              unat R = alpha_blend 120 255 (unat r) \<and>
              unat G = alpha_blend 120 0 (unat g) \<and>
              unat B = alpha_blend 120 0 (unat b)))"
    by blast
  have "(3 :: nat) < 128" "(4 :: nat) < 128" by simp_all
  with px src have
    "(elem pm [4, 3] = 0 \<or> elem pm [4, 3] = 1) \<and>
     (elem pm [4, 3] = 0 \<longrightarrow> getpixel combined (3, 4) = (10, 20, 30, 255)) \<and>
     (elem pm [4, 3] = 1 \<longrightarrow>
        (\<exists>R G B. getpixel combined (3, 4) = (R, G, B, 255) \<and>
           unat R = alpha_blend 120 255 (unat (10 :: byte)) \<and>
           unat G = alpha_blend 120 0 (unat (20 :: byte)) \<and>
           unat B = alpha_blend 120 0 (unat (30 :: byte))))"
    by blast
  then have "getpixel combined (3, 4) = (10, 20, 30, 255) \<or>
      (\<exists>R G B. getpixel combined (3, 4) = (R, G, B, 255) \<and>
         unat R = 125 \<and> unat G = 11 \<and> unat B = 16)"
    unfolding bl by blast
  with ep cs show ?thesis by blast
qed

subsection \<open>The two image endpoints use one mask\<close>

text \<open>
  C10. For the same decoded image, the mask endpoint and the overlay endpoint use the
  same mask. Both resize the image to \<open>(IMG_SIZE, IMG_SIZE)\<close> with the bilinear filter
  and call \<open>predict_mask_from_image\<close> on it. With any network: if that call or the
  conversion to an image raises, both endpoints fail with this exception; otherwise the
  image \<open>mi\<close> encoded in the mask PNG is the image from which the overlay's alpha channel
  is computed. With the loaded network both succeed, and the alpha of the overlay at every
  position is \<open>alpha_of\<close> of the pixel of the mask PNG there.
\<close>

theorem mask_and_overlay_share_the_mask:
  assumes dec: "decode (contents file) = Inr img"
  shows
    "(case and_then
        (predict_mask_from_image rs model (Image_resize rs img (IMG_SIZE, IMG_SIZE) BILINEAR))
        mask_to_image of
        Inl e \<Rightarrow>
          mask_png_body decode rs model file = Inl e \<and>
          overlay_png_body decode rs model file = Inl e
      | Inr mi \<Rightarrow>
          mask_png_body decode rs model file = Inr (Png_L mi) \<and>
          overlay_png_body decode rs model file =
            and_then
              (putalpha
                (Image_new (im_size (Image_resize rs img (IMG_SIZE, IMG_SIZE) BILINEAR))
                   (255, 0, 0, 0))
                (Image_point mi alpha_of))
              (\<lambda>overlay.
                 and_then
                   (alpha_composite
                      (convert_RGBA (Image_resize rs img (IMG_SIZE, IMG_SIZE) BILINEAR)) overlay)
                   (\<lambda>combined. Inr (Png_RGBA combined)))) \<and>
     (\<exists>pm mi overlay combined.
        predict_mask_from_image rs (loaded_model sd)
          (Image_resize rs img (IMG_SIZE, IMG_SIZE) BILINEAR) = Inr pm \<and>
        mask_to_image pm = Inr mi \<and>
        (\<forall>x y. getpixel mi (x, y) = (if elem pm [y, x] = 1 then 255 else 0)) \<and>
        mask_png_body decode rs (loaded_model sd) file = Inr (Png_L mi) \<and>
        putalpha
          (Image_new (im_size (Image_resize rs img (IMG_SIZE, IMG_SIZE) BILINEAR)) (255, 0, 0, 0))
          (Image_point mi alpha_of) = Inr overlay \<and>
        (\<forall>pos. getpixel overlay pos = (255, 0, 0, alpha_of (getpixel mi pos))) \<and>
        alpha_composite
          (convert_RGBA (Image_resize rs img (IMG_SIZE, IMG_SIZE) BILINEAR)) overlay =
          Inr combined \<and>
        overlay_png_body decode rs (loaded_model sd) file = Inr (Png_RGBA combined))"
proof (intro conjI)
  let ?r = "Image_resize rs img (IMG_SIZE, IMG_SIZE) BILINEAR"
  show "case and_then (predict_mask_from_image rs model ?r) mask_to_image of
        Inl e \<Rightarrow>
          mask_png_body decode rs model file = Inl e \<and>
          overlay_png_body decode rs model file = Inl e
      | Inr mi \<Rightarrow>
          mask_png_body decode rs model file = Inr (Png_L mi) \<and>
          overlay_png_body decode rs model file =
            and_then
              (putalpha (Image_new (im_size ?r) (255, 0, 0, 0)) (Image_point mi alpha_of))
              (\<lambda>overlay.
                 and_then (alpha_composite (convert_RGBA ?r) overlay)
                   (\<lambda>combined. Inr (Png_RGBA combined)))"
    by (simp add: mask_png_body_def overlay_png_body_def dec and_then_def Let_def
        split: sum.splits)
  from png_bodies_loaded [of decode "file" img rs sd, OF dec]
  show "\<exists>pm mi overlay combined.
        predict_mask_from_image rs (loaded_model sd) ?r = Inr pm \<and>
        mask_to_image pm = Inr mi \<and>
        (\<forall>x y. getpixel mi (x, y) = (if elem pm [y, x] = 1 then 255 else 0)) \<and>
        mask_png_body decode rs (loaded_model sd) file = Inr (Png_L mi) \<and>
        putalpha (Image_new (im_size ?r) (255, 0, 0, 0)) (Image_point mi alpha_of) = Inr overlay \<and>
        (\<forall>pos. getpixel overlay pos = (255, 0, 0, alpha_of (getpixel mi pos))) \<and>
        alpha_composite (convert_RGBA ?r) overlay = Inr combined \<and>
        overlay_png_body decode rs (loaded_model sd) file = Inr (Png_RGBA combined)"
    by blast
qed

theorem mask_and_overlay_share_the_mask_witness:
  "\<exists>mi overlay combined.
     mask_png_body (\<lambda>bytes. Inr (Image_new (300, 200) (10, 20, 30)))
       (\<lambda>f im sz pos. getpixel im (0, 0))
       (loaded_model \<lparr>conv_w = (\<lambda>name t idx. 1), bn_w = (\<lambda>name j v. v)\<rparr>)
       \<lparr>content_type = Some ''image/png'', filename = Some ''scan.png'', contents = []\<rparr> =
       Inr (Png_L mi) \<and>
     (\<forall>pos. getpixel overlay pos = (255, 0, 0, alpha_of (getpixel mi pos))) \<and>
     alpha_composite
       (convert_RGBA (Image_resize (\<lambda>f im sz pos. getpixel im (0, 0))
          (Image_new (300, 200) (10, 20, 30)) (IMG_SIZE, IMG_SIZE) BILINEAR)) overlay =
       Inr combined \<and>
     overlay_png_body (\<lambda>bytes. Inr (Image_new (300, 200) (10, 20, 30)))
       (\<lambda>f im sz pos. getpixel im (0, 0))
       (loaded_model \<lparr>conv_w = (\<lambda>name t idx. 1), bn_w = (\<lambda>name j v. v)\<rparr>)
       \<lparr>content_type = Some ''image/png'', filename = Some ''scan.png'', contents = []\<rparr> =
       Inr (Png_RGBA combined)"
proof -
  let ?img = "Image_new (300, 200) (10, 20, 30) :: rgb image"
  let ?decode = "(\<lambda>bytes. Inr ?img) :: decoder"
  let ?file = "\<lparr>content_type = Some ''image/png'', filename = Some ''scan.png'',
                contents = []\<rparr>"
  have dec: "?decode (contents ?file) = Inr ?img" by simp
  from mask_and_overlay_share_the_mask [of ?decode ?file ?img, OF dec]
  show ?thesis by blast
qed

subsection \<open>The request boundary\<close>

text \<open>
  C9. On each of the three prediction endpoints: an upload whose declared content type
  does not start with \<^verbatim>\<open>image/\<close> is answered with status 400 whatever the decoder, the
  resampler and the network are, so before any of them is used. With an image content
  type, every exception raised in the body (by the decoder, by the preprocessing, by the
  network on a shape mismatch, or later) becomes the one failure of status 500 whose
  detail is \<^verbatim>\<open>Prediction failed: \<close> followed by the text of the exception, and a result of
  the body is returned as it is. The module-level network is the same after the request.
\<close>

theorem request_boundary:
  "snd (predict_segmentation decode rs model file) = model \<and>
   snd (predict_mask_png decode rs model file) = model \<and>
   snd (predict_overlay_png decode rs model file) = model \<and>
   (\<forall>ct. content_type file = Some ct \<and> \<not> prefix ''image/'' ct \<longrightarrow>
      (\<forall>decode' rs' model'.
         fst (predict_segmentation decode' rs' model' file) =
           Inl (HTTPException 400 ''Invalid file type. Please upload an image.'') \<and>
         fst (predict_mask_png decode' rs' model' file) =
           Inl (HTTPException 400 ''Invalid file type. Please upload an image.'') \<and>
         fst (predict_overlay_png decode' rs' model' file) =
           Inl (HTTPException 400 ''Invalid file type. Please upload an image.''))) \<and>
   (\<forall>ct. content_type file = Some ct \<and> prefix ''image/'' ct \<longrightarrow>
      (\<forall>e. segmentation_body decode rs model file = Inl e \<longrightarrow>
         fst (predict_segmentation decode rs model file) =
           Inl (HTTPException 500 (''Prediction failed: '' @ str_of e))) \<and>
      (\<forall>e. mask_png_body decode rs model file = Inl e \<longrightarrow>
         fst (predict_mask_png decode rs model file) =
           Inl (HTTPException 500 (''Prediction failed: '' @ str_of e))) \<and>
      (\<forall>e. overlay_png_body decode rs model file = Inl e \<longrightarrow>
         fst (predict_overlay_png decode rs model file) =
           Inl (HTTPException 500 (''Prediction failed: '' @ str_of e))) \<and>
      (\<forall>r. segmentation_body decode rs model file = Inr r \<longrightarrow>
         fst (predict_segmentation decode rs model file) = Inr r) \<and>
      (\<forall>r. mask_png_body decode rs model file = Inr r \<longrightarrow>
         fst (predict_mask_png decode rs model file) = Inr r) \<and>
      (\<forall>r. overlay_png_body decode rs model file = Inr r \<longrightarrow>
         fst (predict_overlay_png decode rs model file) = Inr r) \<and>
      (\<forall>e. decode (contents file) = Inl e \<longrightarrow>
         segmentation_body decode rs model file = Inl e \<and>
         mask_png_body decode rs model file = Inl e \<and>
         overlay_png_body decode rs model file = Inl e) \<and>
      (\<forall>img t e. decode (contents file) = Inr img \<and> preprocess rs img = Inr t \<and>
         UNet_forward model (unsqueeze0 t) = Inl e \<longrightarrow>
         fst (predict_segmentation decode rs model file) =
           Inl (HTTPException 500 (''Prediction failed: '' @ str_of e))))"
proof (intro conjI allI impI)
  fix ct decode' rs' model'
  assume c: "content_type file = Some ct \<and> \<not> prefix ''image/'' ct"
  then show "fst (predict_segmentation decode' rs' model' file) =
      Inl (HTTPException 400 ''Invalid file type. Please upload an image.'')"
    by (simp add: predict_segmentation_def content_type_check_def and_then_def)
  from c show "fst (predict_mask_png decode' rs' model' file) =
      Inl (HTTPException 400 ''Invalid file type. Please upload an image.'')"
    by (simp add: predict_mask_png_def content_type_check_def and_then_def)
  from c show "fst (predict_overlay_png decode' rs' model' file) =
      Inl (HTTPException 400 ''Invalid file type. Please upload an image.'')"
    by (simp add: predict_overlay_png_def content_type_check_def and_then_def)
next
  fix ct e
  assume c: "content_type file = Some ct \<and> prefix ''image/'' ct"
  then have ok: "content_type_check file = Inr ()"
    by (simp add: content_type_check_def)
  {
    assume "segmentation_body decode rs model file = Inl e"
    then show "fst (predict_segmentation decode rs model file) =
        Inl (HTTPException 500 (''Prediction failed: '' @ str_of e))"
      by (simp add: predict_segmentation_def ok and_then_Inr prediction_failed_def)
  }
  {
    assume "mask_png_body decode rs model file = Inl e"
    then show "fst (predict_mask_png decode rs model file) =
        Inl (HTTPException 500 (''Prediction failed: '' @ str_of e))"
      by (simp add: predict_mask_png_def ok and_then_Inr prediction_failed_def)
  }
  {
    assume "overlay_png_body decode rs model file = Inl e"
    then show "fst (predict_overlay_png decode rs model file) =
        Inl (HTTPException 500 (''Prediction failed: '' @ str_of e))"
      by (simp add: predict_overlay_png_def ok and_then_Inr prediction_failed_def)
  }
  {
    assume d: "decode (contents file) = Inl e"
    show "segmentation_body decode rs model file = Inl e"
      by (simp add: segmentation_body_def d and_then_Inl)
    show "mask_png_body decode rs model file = Inl e"
      by (simp add: mask_png_body_def d and_then_Inl)
    show "overlay_png_body decode rs model file = Inl e"
      by (simp add: overlay_png_body_def d and_then_Inl)
  }
next
  fix ct r
  assume c: "content_type file = Some ct \<and> prefix ''image/'' ct"
  then have ok: "content_type_check file = Inr ()"
    by (simp add: content_type_check_def)
  {
    assume "segmentation_body decode rs model file = Inr r"
    then show "fst (predict_segmentation decode rs model file) = Inr r"
      by (simp add: predict_segmentation_def ok and_then_Inr prediction_failed_def)
  }
  {
    assume "mask_png_body decode rs model file = Inr r"
    then show "fst (predict_mask_png decode rs model file) = Inr r"
      by (simp add: predict_mask_png_def ok and_then_Inr prediction_failed_def)
  }
  {
    assume "overlay_png_body decode rs model file = Inr r"
    then show "fst (predict_overlay_png decode rs model file) = Inr r"
      by (simp add: predict_overlay_png_def ok and_then_Inr prediction_failed_def)
  }
next
  fix ct img t e
  assume c: "content_type file = Some ct \<and> prefix ''image/'' ct"
    and d: "decode (contents file) = Inr img \<and> preprocess rs img = Inr t \<and>
         UNet_forward model (unsqueeze0 t) = Inl e"
  from c have ok: "content_type_check file = Inr ()"
    by (simp add: content_type_check_def)
  from d have "segmentation_body decode rs model file = Inl e"
    by (simp add: segmentation_body_def and_then_Inr and_then_Inl)
  then show "fst (predict_segmentation decode rs model file) =
      Inl (HTTPException 500 (''Prediction failed: '' @ str_of e))"
    by (simp add: predict_segmentation_def ok and_then_Inr prediction_failed_def)
qed (simp_all add: predict_segmentation_def predict_mask_png_def predict_overlay_png_def)


theorem request_boundary_witness:
  "fst (predict_segmentation (\<lambda>bytes. Inr (Image_new (300, 200) (10, 20, 30)))
          (\<lambda>f im sz pos. getpixel im (0, 0))
          (loaded_model \<lparr>conv_w = (\<lambda>name t idx. 1), bn_w = (\<lambda>name j v. v)\<rparr>)
          \<lparr>content_type = Some ''text/plain'', filename = Some ''notes.txt'', contents = []\<rparr>) =
     Inl (HTTPException 400 ''Invalid file type. Please upload an image.'') \<and>
   fst (predict_mask_png (\<lambda>bytes. Inl (UnidentifiedImageError ''cannot identify image file''))
          (\<lambda>f im sz pos. getpixel im (0, 0))
          (loaded_model \<lparr>conv_w = (\<lambda>name t idx. 1), bn_w = (\<lambda>name j v. v)\<rparr>)
          \<lparr>content_type = Some ''image/png'', filename = Some ''scan.png'', contents = []\<rparr>) =
     Inl (HTTPException 500 ''Prediction failed: cannot identify image file'')"
proof -
  let ?ok = "(\<lambda>bytes. Inr (Image_new (300, 200) (10, 20, 30))) :: decoder"
  let ?bad = "(\<lambda>bytes. Inl (UnidentifiedImageError ''cannot identify image file'')) :: decoder"
  let ?rs = "(\<lambda>f im sz pos. getpixel im (0, 0)) :: rgb resampler"
  let ?model = "loaded_model \<lparr>conv_w = (\<lambda>name t idx. 1), bn_w = (\<lambda>name j v. v)\<rparr>"
  let ?txt = "\<lparr>content_type = Some ''text/plain'', filename = Some ''notes.txt'',
               contents = []\<rparr>"
  let ?png = "\<lparr>content_type = Some ''image/png'', filename = Some ''scan.png'',
               contents = []\<rparr>"
  have t: "content_type ?txt = Some ''text/plain'' \<and> \<not> prefix ''image/'' ''text/plain''"
    by simp
  have p: "content_type ?png = Some ''image/png'' \<and> prefix ''image/'' ''image/png''"
    by simp
  have d: "?bad (contents ?png) = Inl (UnidentifiedImageError ''cannot identify image file'')"
    by simp
  note rejected = request_boundary [of ?ok ?rs ?model ?txt,
      THEN conjunct2, THEN conjunct2, THEN conjunct2, THEN conjunct1, rule_format, OF t]
  note caught = request_boundary [of ?bad ?rs ?model ?png,
      THEN conjunct2, THEN conjunct2, THEN conjunct2, THEN conjunct2, rule_format, OF p]
  have body: "mask_png_body ?bad ?rs ?model ?png =
      Inl (UnidentifiedImageError ''cannot identify image file'')"
    by (rule caught [THEN conjunct2, THEN conjunct2, THEN conjunct2, THEN conjunct2,
          THEN conjunct2, THEN conjunct2, THEN conjunct1, rule_format, OF d,
          THEN conjunct2, THEN conjunct1])
  have "fst (predict_segmentation ?ok ?rs ?model ?txt) =
      Inl (HTTPException 400 ''Invalid file type. Please upload an image.'')"
    by (rule rejected [THEN conjunct1])
  moreover have "fst (predict_mask_png ?bad ?rs ?model ?png) =
      Inl (HTTPException 500
        (''Prediction failed: '' @ str_of (UnidentifiedImageError ''cannot identify image file'')))"
    by (rule caught [THEN conjunct2, THEN conjunct1, rule_format, OF body])
  ultimately show ?thesis by simp
qed

end
